theory Spec2Isabelle
  imports Main "HOL-Library.Multiset"
begin

section \<open>Results of Go functions\<close>

text \<open>
  A Go function of the services returns a value and an \<open>error\<close>, or panics (nil pointer
  dereference, failed type assertion, index out of range). The three outcomes are the three
  constructors of \<open>result\<close>. Error values built in the sources have a constructor of their
  own, and so have the two errors of the store indexer: the wrapped error of a key function
  and the missing index. An error produced by another collaborator outside the sources
  (the vAPI converter, the NSX client) is \<open>External\<close>.
\<close>

datatype error =
    NoValidVlan string string
  | NoParentConfig string string
  | IPBlockExhaustedError string
  | KeyFuncUnknownType
  | IndexFuncUnknownType
  | ParentConfigKeyType
  | KeyError error
  | IndexNotFound string
  | External string

datatype 'a result = Ok 'a | Err error | Panic

section \<open>Data model\<close>

text \<open>
  The structs of the NSX SDK and of the API package, with the fields the services read or
  write (and, for the binding map, the revision counter that the backend maintains). A Go
  pointer field is an \<open>option\<close>: \<open>None\<close> is nil. \<open>int64\<close> values are
  \<open>int\<close>: the services only compare and copy them, and count from 1 to 4094.
\<close>

record Tag =
  tag_Scope :: "string option"
  tag_Tag :: "string option"

record SegmentConnectionBindingMap =
  scbm_Id :: "string option"
  scbm_DisplayName :: "string option"
  scbm_Tags :: "Tag list"
  scbm_SegmentPath :: "string option"
  scbm_ParentPath :: "string option"
  scbm_VlanTrafficTag :: "int option"
  scbm_MarkedForDelete :: "bool option"
  scbm_ResourceType :: "string option"
  scbm_Revision :: "int option"

record ChildSubnet =
  cs_UID :: string
  cs_Name :: string
  cs_Namespace :: string
  cs_Parent :: string
  cs_AccessMode :: string
  cs_SubnetPrefixLength :: int
  cs_StatusVlan :: int

text \<open>
  \<open>segmentPaths\<close> is a Go string set. The list holds its elements once each, in the order
  in which one \<open>range\<close> over the set visits them (Go fixes no order).
\<close>

record ParentConfig =
  pc_id :: string
  pc_name :: string
  pc_namespace :: string
  pc_tier1Path :: string
  pc_transportZonePath :: string
  pc_segmentPaths :: "string list"
  pc_publicIPBlockPath :: string
  pc_privateIPBlockPath :: string

section \<open>Serialised child wrappers\<close>

text \<open>
  A \<open>data.StructValue\<close> made from one of the SDK's \<open>Child...\<close> wrappers: the wrapper's
  resource type, its id, its tombstone flag, the target type (of a
  \<open>ChildResourceReference\<close>) and the serialised children below it. The scalar fields of
  the wrapped resource are not represented. The converter \<open>ConvertToVapi\<close> is a parameter
  \<open>cv\<close>: \<open>cv v = Some e\<close> when converting to \<open>v\<close> fails with \<open>e\<close>.
\<close>

datatype StructValue =
  StructValue (sv_resourceType: string) (sv_id: "string option")
    (sv_markedForDelete: "bool option") (sv_targetType: "string option")
    (sv_children: "StructValue list")

type_synonym converter = "StructValue \<Rightarrow> error option"

definition convertToVapi :: "converter \<Rightarrow> StructValue \<Rightarrow> StructValue result" where
  "convertToVapi cv v = (case cv v of Some e \<Rightarrow> Err e | None \<Rightarrow> Ok v)"

section \<open>Resources of the child subnet service\<close>

text \<open>
  The SDK structs the child subnet service builds, wraps and stores. \<open>Children\<close> holds the
  serialised child wrappers appended by \<open>wrap.go\<close>.
\<close>

record IpAddressBlock =
  blk_Id :: "string option"
  blk_Path :: "string option"
  blk_Tags :: "Tag list"

record IpAddressPool =
  pool_Id :: "string option"
  pool_DisplayName :: "string option"
  pool_Tags :: "Tag list"
  pool_MarkedForDelete :: "bool option"
  pool_ResourceType :: "string option"
  pool_Children :: "StructValue list"

record IpAddressPoolBlockSubnet =
  ibs_Id :: "string option"
  ibs_DisplayName :: "string option"
  ibs_Tags :: "Tag list"
  ibs_IpBlockPath :: "string option"
  ibs_Size :: "int option"
  ibs_MarkedForDelete :: "bool option"
  ibs_ResourceType :: string

record Segment =
  seg_Id :: "string option"
  seg_DisplayName :: "string option"
  seg_Tags :: "Tag list"
  seg_ConnectivityPath :: "string option"
  seg_TransportZonePath :: "string option"
  seg_Subnets :: "string option list"
  seg_AddressPoolPaths :: "string list"
  seg_MarkedForDelete :: "bool option"
  seg_ResourceType :: "string option"
  seg_Children :: "StructValue list"

record Tier1 =
  t1_Id :: "string option"
  t1_Path :: "string option"
  t1_Tags :: "Tag list"
  t1_MarkedForDelete :: "bool option"
  t1_ResourceType :: "string option"
  t1_Children :: "StructValue list"

record PolicyNat =
  nat_Id :: "string option"
  nat_DisplayName :: "string option"
  nat_NatType :: "string option"
  nat_MarkedForDelete :: "bool option"
  nat_ResourceType :: "string option"
  nat_Children :: "StructValue list"

record PolicyNatRule =
  rule_Id :: "string option"
  rule_DisplayName :: "string option"
  rule_Action :: "string option"
  rule_Tags :: "Tag list"
  rule_SourceNetwork :: "string option"
  rule_DestinationNetwork :: "string option"
  rule_MarkedForDelete :: "bool option"
  rule_ResourceType :: "string option"

record Infra =
  infra_Children :: "StructValue list"
  infra_ResourceType :: "string option"

text \<open>\<open>net.IPNet\<close> and \<open>net.IP\<close>: byte slices.\<close>

type_synonym IP = "nat list"

record IPNet =
  ipnet_IP :: IP
  ipnet_Mask :: "nat list"

text \<open>The realized-state entities listed by the NSX client, and its API error.\<close>

record ExtendedAttribute =
  attr_Key :: "string option"
  attr_Values :: "string list"

record RealizedEntity =
  re_EntityType :: "string option"
  re_ExtendedAttributes :: "ExtendedAttribute list"

record RelatedApiError =
  rae_ErrorCode :: "int option"
  rae_ErrorMessage :: "string option"

record ApiError =
  ae_RelatedErrors :: "RelatedApiError list"

section \<open>Collaborators outside the sources\<close>

text \<open>
  Helpers of \<open>pkg/util\<close>, \<open>pkg/nsx/services/common\<close> and \<open>pkg/nsx/services/ippool\<close> that
  the services call but that are not among the sources are fields of \<open>Common\<close>; every
  statement below holds for all of them. \<open>ResourceTypeOf\<close> gives the string constants
  \<open>common.ResourceType...\<close>; the fields \<open>TagScope...\<close> are the string constants of these
  names.
\<close>

datatype ResourceKind =
    KIPPool | KIPPoolBlockSubnet | KSegment | KSegmentConnectionBindingMap
  | KPolicyNATRule | KPolicyNAT | KTier1 | KSubnetConnectionBindingMap

record Common =
  GenerateID :: "string \<Rightarrow> string \<Rightarrow> string \<Rightarrow> string \<Rightarrow> string"
  GenerateDisplayName :: "string \<Rightarrow> string \<Rightarrow> string \<Rightarrow> string \<Rightarrow> string \<Rightarrow> string"
  CalculateSubnetSize :: "int \<Rightarrow> int"
  TagScopeParentConfigUID :: string
  TagScopeChildSubnetUID :: string
  TagScopeChildSubnetBlock :: string
  TagScopeNCPCluster :: string
  TagScopeNCPProject :: string
  TagScopeNCPProjectUID :: string
  TagScopeNCPVNetworkUID :: string
  RealizeMaxRetries :: nat
  ResourceTypeOf :: "ResourceKind \<Rightarrow> string"
  BuildIPPool :: "string option \<Rightarrow> string option \<Rightarrow> Tag list \<Rightarrow> IpAddressPool"
  BuildIPSubnet ::
    "string option \<Rightarrow> string option \<Rightarrow> string option \<Rightarrow> Tag list \<Rightarrow> int option
      \<Rightarrow> IpAddressPoolBlockSubnet"

text \<open>
  The NSX client, the vAPI converter and \<open>nsxutil.DumpAPIError\<close>. \<open>Patch\<close> answers a
  hierarchical request with an error or with success; \<open>RealizedList k path\<close> is the answer
  of the realized-state endpoint to the call made after \<open>k\<close> earlier ones.
\<close>

record Backend =
  Patch :: "Infra \<Rightarrow> error option"
  RealizedList :: "nat \<Rightarrow> string \<Rightarrow> error + RealizedEntity list"
  DumpAPIError :: "error \<Rightarrow> ApiError option"
  ConvertToVapi :: converter

text \<open>Functions of the Go standard library (\<open>net\<close>, \<open>fmt\<close>).\<close>

record GoLib =
  ParseCIDR :: "string \<Rightarrow> IPNet option"
  ParseIP :: "string \<Rightarrow> IP option"
  IPNetString :: "IPNet \<Rightarrow> string"
  FormatInt :: "nat \<Rightarrow> string"

section \<open>Building the segment connection binding maps (\<open>t1builder.go\<close>)\<close>

definition segmentConnectionBindingMapPrefix :: string where
  "segmentConnectionBindingMapPrefix = ''scbm''"

text \<open>\<open>strings.Split(path, "/")\<close>: never empty.\<close>

fun splitSlash :: "string \<Rightarrow> string list" where
  "splitSlash [] = [[]]"
| "splitSlash (c # s) =
     (if c = CHR ''/'' then [] # splitSlash s
      else (case splitSlash s of
              [] \<Rightarrow> [[c]]
            | w # ws \<Rightarrow> (c # w) # ws))"

definition getSegmentIDFromPath :: "string \<Rightarrow> string" where
  "getSegmentIDFromPath path = (let items = splitSlash path in last items)"

definition buildSegmentBindingMapID :: "Common \<Rightarrow> ChildSubnet \<Rightarrow> string \<Rightarrow> string" where
  "buildSegmentBindingMapID cm childSubnet parentID =
     GenerateID cm (cs_UID childSubnet) segmentConnectionBindingMapPrefix parentID []"

definition buildSegmentBindingMapName :: "Common \<Rightarrow> ChildSubnet \<Rightarrow> string \<Rightarrow> string" where
  "buildSegmentBindingMapName cm childSubnet parentID =
     GenerateDisplayName cm (cs_Name childSubnet) segmentConnectionBindingMapPrefix parentID [] []"

text \<open>The struct literal sets five fields; the others stay nil.\<close>

definition BuildSegmentConnectionBindingMap ::
  "string option \<Rightarrow> string option \<Rightarrow> string option \<Rightarrow> int \<Rightarrow> Tag list
    \<Rightarrow> SegmentConnectionBindingMap" where
  "BuildSegmentConnectionBindingMap id' name parentPath vlanTag tags =
     \<lparr> scbm_Id = id', scbm_DisplayName = name, scbm_Tags = tags, scbm_SegmentPath = parentPath,
       scbm_ParentPath = None, scbm_VlanTrafficTag = Some vlanTag, scbm_MarkedForDelete = None,
       scbm_ResourceType = None, scbm_Revision = None \<rparr>"

text \<open>
  \<open>make([]*model.SegmentConnectionBindingMap, len(parentPaths))\<close> is a slice of
  \<open>len(parentPaths)\<close> nil pointers; the loop appends one binding map per parent path to it.
\<close>

definition bindingMapFor ::
  "Common \<Rightarrow> ChildSubnet \<Rightarrow> int \<Rightarrow> Tag list \<Rightarrow> string \<Rightarrow> SegmentConnectionBindingMap" where
  "bindingMapFor cm childSubnet vlanTag bindMapTags parentPath =
     (let parentID = getSegmentIDFromPath parentPath;
          id' = Some (buildSegmentBindingMapID cm childSubnet parentID);
          name = Some (buildSegmentBindingMapName cm childSubnet parentID)
      in BuildSegmentConnectionBindingMap id' name (Some parentPath) vlanTag bindMapTags)"

definition buildSegmentConnectionBindingMaps ::
  "Common \<Rightarrow> ChildSubnet \<Rightarrow> ParentConfig \<Rightarrow> int \<Rightarrow> Tag list
    \<Rightarrow> SegmentConnectionBindingMap option list" where
  "buildSegmentConnectionBindingMaps cm childSubnet parentConfig vlanTag tags =
     (let parentPaths = pc_segmentPaths parentConfig;
          bindingMaps = replicate (length parentPaths) None;
          bindMapTags = tags @ [\<lparr> tag_Scope = Some (TagScopeParentConfigUID cm),
                                  tag_Tag = Some (pc_id parentConfig) \<rparr>]
      in foldl (\<lambda>bindingMaps parentPath.
                  bindingMaps @ [Some (bindingMapFor cm childSubnet vlanTag bindMapTags parentPath)])
           bindingMaps parentPaths)"

section \<open>Comparable binding maps\<close>

text \<open>
  \<open>common.Comparable\<close> is an interface: a value of it is nil, or holds a pointer (which may
  itself be nil) to a binding map.
\<close>

datatype Comparable = NilComparable | ComparableScbm "SegmentConnectionBindingMap option"

text \<open>
  \<open>GetDataValue__\<close> of the SDK turns a struct into a vAPI struct value field by field. The
  data value is represented by the struct it was made from.
\<close>

type_synonym DataValue = SegmentConnectionBindingMap

definition scbm_Key :: "SegmentConnectionBindingMap \<Rightarrow> string result" where
  "scbm_Key scbm = (case scbm_Id scbm of None \<Rightarrow> Panic | Some i \<Rightarrow> Ok i)"

text \<open>
  \<open>s := &SegmentConnectionBindingMap{Id: scbm.Id, DisplayName: scbm.DisplayName, Tags: scbm.Tags}\<close>
\<close>

definition scbm_Value :: "SegmentConnectionBindingMap \<Rightarrow> DataValue" where
  "scbm_Value scbm =
     \<lparr> scbm_Id = scbm_Id scbm, scbm_DisplayName = scbm_DisplayName scbm,
       scbm_Tags = scbm_Tags scbm, scbm_SegmentPath = None, scbm_ParentPath = None,
       scbm_VlanTrafficTag = None, scbm_MarkedForDelete = None, scbm_ResourceType = None,
       scbm_Revision = None \<rparr>"

definition SegmentConnectionBindingMapToComparable ::
  "SegmentConnectionBindingMap option \<Rightarrow> Comparable" where
  "SegmentConnectionBindingMapToComparable scbm = ComparableScbm scbm"

text \<open>
  \<open>make([]common.Comparable, len(scbms))\<close> holds \<open>len(scbms)\<close> nil interfaces, and the loop
  appends to it.
\<close>

definition SegmentConnectionBindingMapsToComparable ::
  "SegmentConnectionBindingMap option list \<Rightarrow> Comparable list" where
  "SegmentConnectionBindingMapsToComparable scbms =
     (let bindingMaps = replicate (length scbms) NilComparable
      in foldl (\<lambda>bindingMaps scbm. bindingMaps @ [SegmentConnectionBindingMapToComparable scbm])
           bindingMaps scbms)"

text \<open>The methods \<open>Key\<close> and \<open>Value\<close> called through the interface.\<close>

definition Comparable_Key :: "Comparable \<Rightarrow> string result" where
  "Comparable_Key c =
     (case c of
        NilComparable \<Rightarrow> Panic
      | ComparableScbm None \<Rightarrow> Panic
      | ComparableScbm (Some scbm) \<Rightarrow> scbm_Key scbm)"

definition Comparable_Value :: "Comparable \<Rightarrow> DataValue result" where
  "Comparable_Value c =
     (case c of
        NilComparable \<Rightarrow> Panic
      | ComparableScbm None \<Rightarrow> Panic
      | ComparableScbm (Some scbm) \<Rightarrow> Ok (scbm_Value scbm))"

text \<open>
  Modelled from the spec: \<open>common.CompareResources\<close> is not among the sources. The spec,
  section 4.2: index \<open>existing\<close> by key; a desired item is changed if no existing item shares
  its key or the canonical values differ; an existing item whose key is absent from
  \<open>desired\<close> is stale.
\<close>

definition isChanged :: "Comparable list \<Rightarrow> Comparable \<Rightarrow> bool" where
  "isChanged existing d =
     (case find (\<lambda>x. Comparable_Key x = Comparable_Key d) existing of
        None \<Rightarrow> True
      | Some x \<Rightarrow> Comparable_Value x \<noteq> Comparable_Value d)"

definition isStale :: "Comparable list \<Rightarrow> Comparable \<Rightarrow> bool" where
  "isStale desired x = (find (\<lambda>d. Comparable_Key d = Comparable_Key x) desired = None)"

definition CompareResources ::
  "Comparable list \<Rightarrow> Comparable list \<Rightarrow> Comparable list \<times> Comparable list" where
  "CompareResources existing desired =
     (filter (isChanged existing) desired, filter (isStale desired) existing)"


section \<open>The hierarchical builder of the subnet binding service\<close>

record SubnetConnectionBindingMap =
  sbm_Id :: "string option"
  sbm_MarkedForDelete :: "bool option"
  sbm_ParentPath :: "string option"
  sbm_Path :: "string option"
  sbm_ResourceType :: "string option"

text \<open>The result of \<open>common.ParseVPCResourcePath\<close>, which is a parameter \<open>parse\<close>.\<close>

record VPCResourceInfo =
  vpc_OrgID :: string
  vpc_ProjectID :: string
  vpc_VPCID :: string
  vpc_ID :: string

type_synonym pathParser = "string \<Rightarrow> error + VPCResourceInfo"

definition leafType :: string where
  "leafType = ''SubnetConnectionBindingMap''"

datatype hNode =
  HNode (hn_resourceType: string) (hn_resourceID: string)
    (hn_bindingMap: "SubnetConnectionBindingMap option") (hn_childNodes: "hNode list")

definition appendChildNode :: "hNode \<Rightarrow> hNode \<Rightarrow> hNode" where
  "appendChildNode n node =
     HNode (hn_resourceType n) (hn_resourceID n) (hn_bindingMap n) (hn_childNodes n @ [node])"

text \<open>
  The loop \<open>for _, cn := range n.childNodes\<close> of \<open>mergeChildNode\<close>: the first child that
  satisfies \<open>P\<close> is updated in place by \<open>f\<close> and the loop returns; \<open>None\<close> when no child
  satisfies \<open>P\<close>.
\<close>

fun updateFirst :: "('a \<Rightarrow> bool) \<Rightarrow> ('a \<Rightarrow> 'a) \<Rightarrow> 'a list \<Rightarrow> 'a list option" where
  "updateFirst P f [] = None"
| "updateFirst P f (cn # cns) =
     (if P cn then Some (f cn # cns)
      else (case updateFirst P f cns of
              None \<Rightarrow> None
            | Some cns' \<Rightarrow> Some (cn # cns')))"

function mergeChildNode :: "hNode \<Rightarrow> hNode \<Rightarrow> hNode" where
  "mergeChildNode n (HNode ty ident bm chNs) =
     (if ty = leafType then appendChildNode n (HNode ty ident bm chNs)
      else (case updateFirst (\<lambda>cn. hn_resourceType cn = ty \<and> hn_resourceID cn = ident)
                   (\<lambda>cn. foldl mergeChildNode cn chNs) (hn_childNodes n) of
              Some cns' \<Rightarrow> HNode (hn_resourceType n) (hn_resourceID n) (hn_bindingMap n) cns'
            | None \<Rightarrow> appendChildNode n (HNode ty ident bm chNs)))"
  by pat_completeness auto
termination
  by (relation "measure (\<lambda>(n, node). size node)")
     (auto simp: less_Suc_eq_le size_list_estimation')

declare mergeChildNode.simps [simp del]

definition wrapSubnetBindingMap ::
  "Common \<Rightarrow> converter \<Rightarrow> SubnetConnectionBindingMap option \<Rightarrow> StructValue result" where
  "wrapSubnetBindingMap cm cv bindingMap =
     (case bindingMap of
        None \<Rightarrow> Panic
      | Some bm \<Rightarrow>
          (let bm' = bm\<lparr>sbm_ResourceType := Some (ResourceTypeOf cm KSubnetConnectionBindingMap)\<rparr>
           in convertToVapi cv
                (StructValue ''ChildSubnetConnectionBindingMap'' (sbm_Id bm')
                   (sbm_MarkedForDelete bm') None [])))"

definition wrapChildResourceReference ::
  "converter \<Rightarrow> string \<Rightarrow> string \<Rightarrow> StructValue list \<Rightarrow> StructValue list result" where
  "wrapChildResourceReference cv targetType resID children =
     (case convertToVapi cv
             (StructValue ''ChildResourceReference'' (Some resID) None (Some targetType) children) of
        Ok dataValue \<Rightarrow> Ok [dataValue]
      | Err e \<Rightarrow> Err e
      | Panic \<Rightarrow> Panic)"

fun buildTree :: "Common \<Rightarrow> converter \<Rightarrow> hNode \<Rightarrow> StructValue list result"
  and buildTrees :: "Common \<Rightarrow> converter \<Rightarrow> hNode list \<Rightarrow> StructValue list result" where
  "buildTree cm cv (HNode ty ident bm cns) =
     (if ty = leafType
      then (case wrapSubnetBindingMap cm cv bm of
              Ok dataValue \<Rightarrow> Ok [dataValue]
            | Err e \<Rightarrow> Err e
            | Panic \<Rightarrow> Panic)
      else (case buildTrees cm cv cns of
              Err e \<Rightarrow> Err e
            | Panic \<Rightarrow> Panic
            | Ok children \<Rightarrow>
                if ty = ''OrgRoot'' then Ok children
                else wrapChildResourceReference cv ty ident children))"
| "buildTrees cm cv [] = Ok []"
| "buildTrees cm cv (cn # cns) =
     (case buildTree cm cv cn of
        Err e \<Rightarrow> Err e
      | Panic \<Rightarrow> Panic
      | Ok cnDataValues \<Rightarrow>
          (case buildTrees cm cv cns of
             Err e \<Rightarrow> Err e
           | Panic \<Rightarrow> Panic
           | Ok children \<Rightarrow> Ok (cnDataValues @ children)))"

definition buildHNodeFromSubnetConnectionBindingMap ::
  "pathParser \<Rightarrow> string \<Rightarrow> SubnetConnectionBindingMap \<Rightarrow> hNode result" where
  "buildHNodeFromSubnetConnectionBindingMap parse subnetPath bm =
     (case parse subnetPath of
        Inl e \<Rightarrow> Err e
      | Inr vpcInfo \<Rightarrow>
          (case sbm_Id bm of
             None \<Rightarrow> Panic
           | Some bmId \<Rightarrow>
               Ok (HNode ''Org'' (vpc_OrgID vpcInfo) None
                    [HNode ''Project'' (vpc_ProjectID vpcInfo) None
                      [HNode ''Vpc'' (vpc_VPCID vpcInfo) None
                        [HNode ''Subnet'' (vpc_ID vpcInfo) None
                          [HNode leafType bmId (Some bm) []]]]])))"

text \<open>
  The loop of \<open>buildOrgRootBySubnetConnectionBindingMaps\<close> over the binding maps (non-nil
  pointers), threading the root node. A binding map whose path does not parse is logged
  (\<open>*bm.Path\<close>) and skipped.
\<close>

fun mergeBindingMaps ::
  "pathParser \<Rightarrow> bool option \<Rightarrow> string \<Rightarrow> SubnetConnectionBindingMap list \<Rightarrow> hNode
    \<Rightarrow> hNode result" where
  "mergeBindingMaps parse markForDelete subnetPath [] rootNode = Ok rootNode"
| "mergeBindingMaps parse markForDelete subnetPath (bm # rest) rootNode =
     (let bm' = (if markForDelete \<noteq> None then bm\<lparr>sbm_MarkedForDelete := markForDelete\<rparr> else bm)
      in case (if subnetPath = [] then sbm_ParentPath bm' else Some subnetPath) of
           None \<Rightarrow> Panic
         | Some parentPath \<Rightarrow>
             (case buildHNodeFromSubnetConnectionBindingMap parse parentPath bm' of
                Err e \<Rightarrow>
                  (case sbm_Path bm' of
                     None \<Rightarrow> Panic
                   | Some p \<Rightarrow> mergeBindingMaps parse markForDelete subnetPath rest rootNode)
              | Panic \<Rightarrow> Panic
              | Ok orgNode \<Rightarrow>
                  mergeBindingMaps parse markForDelete subnetPath rest
                    (mergeChildNode rootNode orgNode)))"

record OrgRoot =
  or_Children :: "StructValue list"
  or_ResourceType :: "string option"

definition buildOrgRootBySubnetConnectionBindingMaps ::
  "Common \<Rightarrow> pathParser \<Rightarrow> converter \<Rightarrow> SubnetConnectionBindingMap list \<Rightarrow> bool option \<Rightarrow> string
    \<Rightarrow> OrgRoot option result" where
  "buildOrgRootBySubnetConnectionBindingMaps cm parse cv bindingMaps markForDelete subnetPath =
     (let rootNode = HNode ''OrgRoot'' [] None []
      in case mergeBindingMaps parse markForDelete subnetPath bindingMaps rootNode of
           Err e \<Rightarrow> Err e
         | Panic \<Rightarrow> Panic
         | Ok rootNode' \<Rightarrow>
             (case buildTree cm cv rootNode' of
                Err e \<Rightarrow> Err e
              | Panic \<Rightarrow> Panic
              | Ok children \<Rightarrow>
                  Ok (Some \<lparr> or_Children = children, or_ResourceType = Some ''OrgRoot'' \<rparr>)))"


section \<open>Hierarchy wrappers of the child subnet service (\<open>wrap.go\<close>)\<close>

text \<open>
  The wrappers write through the pointers they are given (\<open>ResourceType\<close>, \<open>Children\<close>).
  Each function returns, with its value, the objects as it leaves them. A nil pointer in a
  slice is \<open>None\<close>; assigning to a field of it panics.
\<close>

fun wrapIPSubnets ::
  "Common \<Rightarrow> converter \<Rightarrow> IpAddressPoolBlockSubnet option list
    \<Rightarrow> (StructValue list \<times> IpAddressPoolBlockSubnet option list) result" where
  "wrapIPSubnets cm cv [] = Ok ([], [])"
| "wrapIPSubnets cm cv (None # rest) = Panic"
| "wrapIPSubnets cm cv (Some IPSubnet # rest) =
     (let IPSubnet' = IPSubnet\<lparr>ibs_ResourceType := ResourceTypeOf cm KIPPoolBlockSubnet\<rparr>
      in case convertToVapi cv
                (StructValue (ibs_ResourceType IPSubnet') (ibs_Id IPSubnet')
                   (ibs_MarkedForDelete IPSubnet') None []) of
           Err e \<Rightarrow> Err e
         | Panic \<Rightarrow> Panic
         | Ok payload \<Rightarrow>
             (case convertToVapi cv
                     (StructValue ''ChildIpAddressPoolSubnet'' (ibs_Id IPSubnet')
                        (ibs_MarkedForDelete IPSubnet') None []) of
                Err e \<Rightarrow> Err e
              | Panic \<Rightarrow> Panic
              | Ok dataValue \<Rightarrow>
                  (case wrapIPSubnets cm cv rest of
                     Err e \<Rightarrow> Err e
                   | Panic \<Rightarrow> Panic
                   | Ok (children, rest') \<Rightarrow> Ok (dataValue # children, Some IPSubnet' # rest'))))"

definition wrapIPPool ::
  "Common \<Rightarrow> converter \<Rightarrow> IpAddressPool \<Rightarrow> (StructValue \<times> IpAddressPool) result" where
  "wrapIPPool cm cv iap =
     (let iap' = iap\<lparr>pool_ResourceType := Some (ResourceTypeOf cm KIPPool)\<rparr>
      in case convertToVapi cv
                (StructValue ''ChildIpAddressPool'' (pool_Id iap') (pool_MarkedForDelete iap') None
                   (pool_Children iap')) of
           Err e \<Rightarrow> Err e
         | Panic \<Rightarrow> Panic
         | Ok dataValue \<Rightarrow> Ok (dataValue, iap'))"

definition wrapIPPoolAndSubnets ::
  "Common \<Rightarrow> converter \<Rightarrow> IpAddressPool \<Rightarrow> IpAddressPoolBlockSubnet option list
    \<Rightarrow> (StructValue \<times> IpAddressPool \<times> IpAddressPoolBlockSubnet option list) result" where
  "wrapIPPoolAndSubnets cm cv ipPool ipSubnets =
     (case wrapIPSubnets cm cv ipSubnets of
        Err e \<Rightarrow> Err e
      | Panic \<Rightarrow> Panic
      | Ok (IPSubnetsChildren, ipSubnets') \<Rightarrow>
          (let ipPool' = ipPool\<lparr>pool_Children := pool_Children ipPool @ IPSubnetsChildren\<rparr>
           in case wrapIPPool cm cv ipPool' of
                Err e \<Rightarrow> Err e
              | Panic \<Rightarrow> Panic
              | Ok (IPPoolChildren, ipPool'') \<Rightarrow> Ok (IPPoolChildren, ipPool'', ipSubnets')))"

definition wrapInfra :: "StructValue list \<Rightarrow> Infra" where
  "wrapInfra children = \<lparr> infra_Children = children, infra_ResourceType = Some ''Infra'' \<rparr>"

definition WrapHierarchyIPPool ::
  "Common \<Rightarrow> converter \<Rightarrow> IpAddressPool \<Rightarrow> IpAddressPoolBlockSubnet option
    \<Rightarrow> (Infra \<times> IpAddressPool \<times> IpAddressPoolBlockSubnet option) result" where
  "WrapHierarchyIPPool cm cv iap iapbs =
     (case wrapIPPoolAndSubnets cm cv iap [iapbs] of
        Err e \<Rightarrow> Err e
      | Panic \<Rightarrow> Panic
      | Ok (IPPoolChildren, iap', iapbss') \<Rightarrow>
          Ok (wrapInfra [IPPoolChildren], iap', (case iapbss' of [] \<Rightarrow> iapbs | x # _ \<Rightarrow> x)))"

fun wrapSegmentConnectionBindingMap ::
  "Common \<Rightarrow> converter \<Rightarrow> SegmentConnectionBindingMap option list
    \<Rightarrow> (StructValue list \<times> SegmentConnectionBindingMap option list) result" where
  "wrapSegmentConnectionBindingMap cm cv [] = Ok ([], [])"
| "wrapSegmentConnectionBindingMap cm cv (None # rest) = Panic"
| "wrapSegmentConnectionBindingMap cm cv (Some bindingMap # rest) =
     (let bindingMap' =
            bindingMap\<lparr>scbm_ResourceType := Some (ResourceTypeOf cm KSegmentConnectionBindingMap)\<rparr>
      in case convertToVapi cv
                (StructValue ''ChildSegmentConnectionBindingMap'' (scbm_Id bindingMap')
                   (scbm_MarkedForDelete bindingMap') None []) of
           Err e \<Rightarrow> Err e
         | Panic \<Rightarrow> Panic
         | Ok dataValue \<Rightarrow>
             (case wrapSegmentConnectionBindingMap cm cv rest of
                Err e \<Rightarrow> Err e
              | Panic \<Rightarrow> Panic
              | Ok (children, rest') \<Rightarrow> Ok (dataValue # children, Some bindingMap' # rest')))"

definition wrapSegments ::
  "Common \<Rightarrow> converter \<Rightarrow> Segment \<Rightarrow> (StructValue \<times> Segment) result" where
  "wrapSegments cm cv segment =
     (let segment' = segment\<lparr>seg_ResourceType := Some (ResourceTypeOf cm KSegment)\<rparr>
      in case convertToVapi cv
                (StructValue ''ChildSegment'' (seg_Id segment') (seg_MarkedForDelete segment') None
                   (seg_Children segment')) of
           Err e \<Rightarrow> Err e
         | Panic \<Rightarrow> Panic
         | Ok dataValue \<Rightarrow> Ok (dataValue, segment'))"

definition wrapSegmentAndConnectionBindingMaps ::
  "Common \<Rightarrow> converter \<Rightarrow> Segment \<Rightarrow> SegmentConnectionBindingMap option list
    \<Rightarrow> (StructValue \<times> Segment \<times> SegmentConnectionBindingMap option list) result" where
  "wrapSegmentAndConnectionBindingMaps cm cv segment bindingMaps =
     (case wrapSegmentConnectionBindingMap cm cv bindingMaps of
        Err e \<Rightarrow> Err e
      | Panic \<Rightarrow> Panic
      | Ok (bindingMapsChildren, bindingMaps') \<Rightarrow>
          (let segment' =
                 (if length bindingMapsChildren > 0
                  then segment\<lparr>seg_Children := seg_Children segment @ bindingMapsChildren\<rparr>
                  else segment)
           in case wrapSegments cm cv segment' of
                Err e \<Rightarrow> Err e
              | Panic \<Rightarrow> Panic
              | Ok (segmentsChildren, segment'') \<Rightarrow> Ok (segmentsChildren, segment'', bindingMaps')))"

fun wrapPolicyNatRules ::
  "Common \<Rightarrow> converter \<Rightarrow> PolicyNatRule option list
    \<Rightarrow> (StructValue list \<times> PolicyNatRule option list) result" where
  "wrapPolicyNatRules cm cv [] = Ok ([], [])"
| "wrapPolicyNatRules cm cv (None # rest) = Panic"
| "wrapPolicyNatRules cm cv (Some natRule # rest) =
     (let natRule' = natRule\<lparr>rule_ResourceType := Some (ResourceTypeOf cm KPolicyNATRule)\<rparr>
      in case convertToVapi cv
                (StructValue ''ChildPolicyNatRule'' (rule_Id natRule')
                   (rule_MarkedForDelete natRule') None []) of
           Err e \<Rightarrow> Err e
         | Panic \<Rightarrow> Panic
         | Ok dataValue \<Rightarrow>
             (case wrapPolicyNatRules cm cv rest of
                Err e \<Rightarrow> Err e
              | Panic \<Rightarrow> Panic
              | Ok (children, rest') \<Rightarrow> Ok (dataValue # children, Some natRule' # rest')))"

definition wrapPolicyNats :: "Common \<Rightarrow> converter \<Rightarrow> PolicyNat \<Rightarrow> StructValue result" where
  "wrapPolicyNats cm cv policyNat =
     (let policyNat' = policyNat\<lparr>nat_ResourceType := Some (ResourceTypeOf cm KPolicyNAT)\<rparr>
      in convertToVapi cv
           (StructValue ''ChildPolicyNat'' (nat_Id policyNat') (nat_MarkedForDelete policyNat') None
              (nat_Children policyNat')))"

definition wrapPolicyTier1s :: "Common \<Rightarrow> converter \<Rightarrow> Tier1 \<Rightarrow> StructValue result" where
  "wrapPolicyTier1s cm cv tier1 =
     (let tier1' = tier1\<lparr>t1_ResourceType := Some (ResourceTypeOf cm KTier1)\<rparr>
      in convertToVapi cv
           (StructValue ''ChildTier1'' (t1_Id tier1') (t1_MarkedForDelete tier1') None
              (t1_Children tier1')))"

definition wrapTier1AndNATRules ::
  "Common \<Rightarrow> converter \<Rightarrow> Tier1 \<Rightarrow> PolicyNat \<Rightarrow> PolicyNatRule option list
    \<Rightarrow> (StructValue \<times> PolicyNatRule option list) result" where
  "wrapTier1AndNATRules cm cv tier1 policyNat natRules =
     (case wrapPolicyNatRules cm cv natRules of
        Err e \<Rightarrow> Err e
      | Panic \<Rightarrow> Panic
      | Ok (natRulesChildren, natRules') \<Rightarrow>
          (case wrapPolicyNats cm cv (policyNat\<lparr>nat_Children := nat_Children policyNat @ natRulesChildren\<rparr>) of
             Err e \<Rightarrow> Err e
           | Panic \<Rightarrow> Panic
           | Ok natChildren \<Rightarrow>
               (case wrapPolicyTier1s cm cv
                       (tier1\<lparr>t1_Children := t1_Children tier1 @ [natChildren]\<rparr>) of
                  Err e \<Rightarrow> Err e
                | Panic \<Rightarrow> Panic
                | Ok tier1Children \<Rightarrow> Ok (tier1Children, natRules'))))"

text \<open>
  The objects a \<open>WrapHierarchy...\<close> call leaves behind for the store update that follows it.
\<close>

record Wrapped =
  w_ipPool :: "IpAddressPool option"
  w_ipSubnet :: "IpAddressPoolBlockSubnet option"
  w_segment :: "Segment option"
  w_bindingMaps :: "SegmentConnectionBindingMap option list"
  w_natRules :: "PolicyNatRule option list"

text \<open>
  \<open>WrapHierarchyInfra\<close> in three steps, one per \<open>if\<close> of the source; each step appends to
  \<open>infraChildren\<close>.
\<close>

definition wrapInfraIPPool ::
  "Common \<Rightarrow> converter \<Rightarrow> StructValue list \<times> Wrapped \<Rightarrow> (StructValue list \<times> Wrapped) result" where
  "wrapInfraIPPool cm cv acc =
     (case acc of (infraChildren, w) \<Rightarrow>
        (case w_ipPool w of
           None \<Rightarrow> Ok (infraChildren, w)
         | Some ipPool \<Rightarrow>
             (case wrapIPPoolAndSubnets cm cv ipPool [w_ipSubnet w] of
                Err e \<Rightarrow> Err e
              | Panic \<Rightarrow> Panic
              | Ok (IPPoolChildren, ipPool', ipSubnets') \<Rightarrow>
                  Ok (infraChildren @ [IPPoolChildren],
                      w\<lparr>w_ipPool := Some ipPool',
                        w_ipSubnet := (case ipSubnets' of [] \<Rightarrow> w_ipSubnet w | x # _ \<Rightarrow> x)\<rparr>))))"

definition wrapInfraSegment ::
  "Common \<Rightarrow> converter \<Rightarrow> StructValue list \<times> Wrapped \<Rightarrow> (StructValue list \<times> Wrapped) result" where
  "wrapInfraSegment cm cv acc =
     (case acc of (infraChildren, w) \<Rightarrow>
        (case w_segment w of
           None \<Rightarrow> Ok (infraChildren, w)
         | Some segment \<Rightarrow>
             (case wrapSegmentAndConnectionBindingMaps cm cv segment (w_bindingMaps w) of
                Err e \<Rightarrow> Err e
              | Panic \<Rightarrow> Panic
              | Ok (segmentChildren, segment', bindingMaps') \<Rightarrow>
                  Ok (infraChildren @ [segmentChildren],
                      w\<lparr>w_segment := Some segment', w_bindingMaps := bindingMaps'\<rparr>))))"

definition wrapInfraTier1 ::
  "Common \<Rightarrow> converter \<Rightarrow> Tier1 option \<Rightarrow> PolicyNat \<Rightarrow> StructValue list \<times> Wrapped
    \<Rightarrow> (StructValue list \<times> Wrapped) result" where
  "wrapInfraTier1 cm cv tier1 policyNat acc =
     (case acc of (infraChildren, w) \<Rightarrow>
        (case tier1 of
           None \<Rightarrow> Ok (infraChildren, w)
         | Some t1 \<Rightarrow>
             if length (w_natRules w) > 0
             then (case wrapTier1AndNATRules cm cv t1 policyNat (w_natRules w) of
                     Err e \<Rightarrow> Err e
                   | Panic \<Rightarrow> Panic
                   | Ok (tierChildren, natRules') \<Rightarrow>
                       Ok (infraChildren @ [tierChildren], w\<lparr>w_natRules := natRules'\<rparr>))
             else Ok (infraChildren, w)))"

definition WrapHierarchyInfra ::
  "Common \<Rightarrow> converter \<Rightarrow> IpAddressPool option \<Rightarrow> IpAddressPoolBlockSubnet option
    \<Rightarrow> Segment option \<Rightarrow> SegmentConnectionBindingMap option list \<Rightarrow> Tier1 option \<Rightarrow> PolicyNat
    \<Rightarrow> PolicyNatRule option list \<Rightarrow> (Infra option \<times> Wrapped) result" where
  "WrapHierarchyInfra cm cv ipPool ipSubnet segment bindingMaps tier1 policyNat natRules =
     (let w = \<lparr> w_ipPool = ipPool, w_ipSubnet = ipSubnet, w_segment = segment,
                w_bindingMaps = bindingMaps, w_natRules = natRules \<rparr>
      in case wrapInfraIPPool cm cv ([], w) of
           Err e \<Rightarrow> Err e
         | Panic \<Rightarrow> Panic
         | Ok acc1 \<Rightarrow>
             (case wrapInfraSegment cm cv acc1 of
                Err e \<Rightarrow> Err e
              | Panic \<Rightarrow> Panic
              | Ok acc2 \<Rightarrow>
                  (case wrapInfraTier1 cm cv tier1 policyNat acc2 of
                     Err e \<Rightarrow> Err e
                   | Panic \<Rightarrow> Panic
                   | Ok (infraChildren, w') \<Rightarrow>
                       if length infraChildren = 0 then Ok (None, w')
                       else Ok (Some (wrapInfra infraChildren), w'))))"

definition WrapHierarchySegmentAndNAT ::
  "Common \<Rightarrow> converter \<Rightarrow> Segment \<Rightarrow> SegmentConnectionBindingMap option list \<Rightarrow> Tier1 option
    \<Rightarrow> PolicyNat \<Rightarrow> PolicyNatRule option list \<Rightarrow> (Infra \<times> Wrapped) result" where
  "WrapHierarchySegmentAndNAT cm cv segment bindingMaps tier1 policyNat natRules =
     (case wrapSegmentAndConnectionBindingMaps cm cv segment bindingMaps of
        Err e \<Rightarrow> Err e
      | Panic \<Rightarrow> Panic
      | Ok (hChildSegmentBindingMaps, segment', bindingMaps') \<Rightarrow>
          (let w = \<lparr> w_ipPool = None, w_ipSubnet = None, w_segment = Some segment',
                     w_bindingMaps = bindingMaps', w_natRules = natRules \<rparr>
           in case tier1 of
                None \<Rightarrow> Ok (wrapInfra [hChildSegmentBindingMaps], w)
              | Some t1 \<Rightarrow>
                  (case wrapTier1AndNATRules cm cv t1 policyNat natRules of
                     Err e \<Rightarrow> Err e
                   | Panic \<Rightarrow> Panic
                   | Ok (hNatsRules, natRules') \<Rightarrow>
                       Ok (wrapInfra [hChildSegmentBindingMaps, hNatsRules],
                           w\<lparr>w_natRules := natRules'\<rparr>))))"


section \<open>The indexed stores\<close>

subsection \<open>The objects of a store\<close>

text \<open>
  The stores wrap client-go's \<open>cache.Indexer\<close>. Its key function and its index functions
  take an \<open>interface{}\<close> and tell the dynamic types apart with type switches and type
  assertions. An \<open>object\<close> is such an interface value: a struct value, or a pointer to a
  struct (\<open>None\<close>: the nil pointer of that type).
\<close>

datatype object =
    IpAddressBlockVal IpAddressBlock
  | IpAddressPoolVal IpAddressPool
  | IpAddressPoolBlockSubnetVal IpAddressPoolBlockSubnet
  | SegmentVal Segment
  | SegmentConnectionBindingMapVal SegmentConnectionBindingMap
  | Tier1Val Tier1
  | PolicyNatRuleVal PolicyNatRule
  | ParentConfigVal ParentConfig
  | IpAddressBlockPtr "IpAddressBlock option"
  | SegmentPtr "Segment option"
  | SegmentConnectionBindingMapPtr "SegmentConnectionBindingMap option"
  | Tier1Ptr "Tier1 option"
  | ParentConfigPtr "ParentConfig option"

type_synonym keyFn = "object \<Rightarrow> string result"
type_synonym indexFunc = "object \<Rightarrow> string list result"

text \<open>\<open>*p\<close>\<close>

definition deref :: "'a option \<Rightarrow> 'a result" where
  "deref p = (case p of None \<Rightarrow> Panic | Some x \<Rightarrow> Ok x)"

subsection \<open>Key functions and index functions\<close>

definition childSegmentPathKey :: string where
  "childSegmentPathKey = ''childSegment''"

definition parentSegmentPathKey :: string where
  "parentSegmentPathKey = ''parentSegment''"

definition t1PathIndexer :: string where
  "t1PathIndexer = ''t1PolicyPath''"

definition namespacedNameIndexKey :: string where
  "namespacedNameIndexKey = ''namespacedName''"

definition clusteredNamespaceIndexKey :: string where
  "clusteredNamespaceIndexKey = ''clusteredNamespace''"

fun keyFunc :: keyFn where
  "keyFunc (IpAddressBlockVal v) = deref (blk_Id v)"
| "keyFunc (IpAddressPoolVal v) = deref (pool_Id v)"
| "keyFunc (IpAddressPoolBlockSubnetVal v) = deref (ibs_Id v)"
| "keyFunc (SegmentVal v) = deref (seg_Id v)"
| "keyFunc (SegmentConnectionBindingMapVal v) = deref (scbm_Id v)"
| "keyFunc (Tier1Val v) = deref (t1_Id v)"
| "keyFunc (PolicyNatRuleVal v) = deref (rule_Id v)"
| "keyFunc obj = Err KeyFuncUnknownType"

text \<open>
  \<open>filterTag\<close>: the loop reads \<open>*tag.Scope\<close> of every tag and \<open>*tag.Tag\<close> of the tags of
  the scope.
\<close>

fun filterTag :: "Tag list \<Rightarrow> string \<Rightarrow> string list result" where
  "filterTag [] tagScope = Ok []"
| "filterTag (tag # tags) tagScope =
     (case tag_Scope tag of
        None \<Rightarrow> Panic
      | Some scope \<Rightarrow>
          if scope = tagScope
          then (case tag_Tag tag of
                  None \<Rightarrow> Panic
                | Some v \<Rightarrow>
                    (case filterTag tags tagScope of
                       Ok res \<Rightarrow> Ok (v # res)
                     | Err e \<Rightarrow> Err e
                     | Panic \<Rightarrow> Panic))
          else filterTag tags tagScope)"

fun indexFuncByScope :: "object \<Rightarrow> string \<Rightarrow> string list result" where
  "indexFuncByScope (IpAddressBlockVal v) tagScope = filterTag (blk_Tags v) tagScope"
| "indexFuncByScope (IpAddressPoolBlockSubnetVal v) tagScope = filterTag (ibs_Tags v) tagScope"
| "indexFuncByScope (IpAddressPoolVal v) tagScope = filterTag (pool_Tags v) tagScope"
| "indexFuncByScope (SegmentVal v) tagScope = filterTag (seg_Tags v) tagScope"
| "indexFuncByScope (SegmentConnectionBindingMapVal v) tagScope = filterTag (scbm_Tags v) tagScope"
| "indexFuncByScope (Tier1Val v) tagScope = filterTag (t1_Tags v) tagScope"
| "indexFuncByScope (PolicyNatRuleVal v) tagScope = filterTag (rule_Tags v) tagScope"
| "indexFuncByScope obj tagScope = Err IndexFuncUnknownType"

definition childSubnetUidIndexFunc :: "Common \<Rightarrow> indexFunc" where
  "childSubnetUidIndexFunc cm obj = indexFuncByScope obj (TagScopeChildSubnetUID cm)"

definition projectUidIndexFunc :: "Common \<Rightarrow> indexFunc" where
  "projectUidIndexFunc cm obj = indexFuncByScope obj (TagScopeNCPProjectUID cm)"

definition parentConfigUidIndexFunc :: "Common \<Rightarrow> indexFunc" where
  "parentConfigUidIndexFunc cm obj = indexFuncByScope obj (TagScopeParentConfigUID cm)"

text \<open>
  \<open>ipBlockByOnlyClusterIndexFunc\<close>: the loop returns at the first tag of the cluster scope;
  its second test repeats the first, so \<open>index\<close> stays 0 and the last line reads
  \<open>*ipBlock.Tags[0].Tag\<close>.
\<close>

fun hasScope :: "Tag list \<Rightarrow> string \<Rightarrow> bool result" where
  "hasScope [] tagScope = Ok False"
| "hasScope (tag # tags) tagScope =
     (case tag_Scope tag of
        None \<Rightarrow> Panic
      | Some scope \<Rightarrow> if scope = tagScope then Ok True else hasScope tags tagScope)"

fun ipBlockByOnlyClusterIndexFunc :: "Common \<Rightarrow> indexFunc" where
  "ipBlockByOnlyClusterIndexFunc cm (IpAddressBlockPtr None) = Panic"
| "ipBlockByOnlyClusterIndexFunc cm (IpAddressBlockPtr (Some ipBlock)) =
     (case hasScope (blk_Tags ipBlock) (TagScopeNCPCluster cm) of
        Panic \<Rightarrow> Panic
      | Err e \<Rightarrow> Err e
      | Ok True \<Rightarrow> Ok []
      | Ok False \<Rightarrow>
          (case blk_Tags ipBlock of
             [] \<Rightarrow> Panic
           | tag # tags \<Rightarrow> (case tag_Tag tag of None \<Rightarrow> Panic | Some v \<Rightarrow> Ok [v])))"
| "ipBlockByOnlyClusterIndexFunc cm obj = Err IndexFuncUnknownType"

fun segmentByVNetIndexFunc :: "Common \<Rightarrow> indexFunc" where
  "segmentByVNetIndexFunc cm (SegmentPtr None) = Panic"
| "segmentByVNetIndexFunc cm (SegmentPtr (Some segment)) =
     filterTag (seg_Tags segment) (TagScopeNCPVNetworkUID cm)"
| "segmentByVNetIndexFunc cm obj = Err IndexFuncUnknownType"

text \<open>
  The two path index functions of the binding map store assert
  \<open>*model.SegmentConnectionBindingMap\<close>; for an object of another type they return no
  index value and no error.
\<close>

fun connectionBindingMapByChildSegmentPathIndexFunc :: indexFunc where
  "connectionBindingMapByChildSegmentPathIndexFunc (SegmentConnectionBindingMapPtr None) = Panic"
| "connectionBindingMapByChildSegmentPathIndexFunc (SegmentConnectionBindingMapPtr (Some v)) =
     (case scbm_ParentPath v of None \<Rightarrow> Panic | Some p \<Rightarrow> Ok [p])"
| "connectionBindingMapByChildSegmentPathIndexFunc obj = Ok []"

fun connectionBindingMapByParentSegmentPathIndexFunc :: indexFunc where
  "connectionBindingMapByParentSegmentPathIndexFunc (SegmentConnectionBindingMapPtr None) = Panic"
| "connectionBindingMapByParentSegmentPathIndexFunc (SegmentConnectionBindingMapPtr (Some v)) =
     (case scbm_SegmentPath v of None \<Rightarrow> Panic | Some p \<Rightarrow> Ok [p])"
| "connectionBindingMapByParentSegmentPathIndexFunc obj = Ok []"

fun tier1ByPolicyPathFunc :: indexFunc where
  "tier1ByPolicyPathFunc (Tier1Ptr None) = Panic"
| "tier1ByPolicyPathFunc (Tier1Ptr (Some t)) =
     (case t1_Path t of None \<Rightarrow> Panic | Some p \<Rightarrow> Ok [p])"
| "tier1ByPolicyPathFunc obj = Err IndexFuncUnknownType"

definition getClusterNamespaceKey :: "string \<Rightarrow> string \<Rightarrow> string" where
  "getClusterNamespaceKey cluster namespace = cluster @ ''/'' @ namespace"

text \<open>The loop of \<open>tier1ByClusteredNamespaceFunc\<close> over the tags, threading the two names.\<close>

fun clusterAndNamespace ::
  "Common \<Rightarrow> Tag list \<Rightarrow> string \<times> string \<Rightarrow> (string \<times> string) result" where
  "clusterAndNamespace cm [] acc = Ok acc"
| "clusterAndNamespace cm (tag # tags) (cluster, namespace) =
     (case tag_Scope tag of
        None \<Rightarrow> Panic
      | Some scope \<Rightarrow>
          if scope = TagScopeNCPCluster cm
          then (case tag_Tag tag of
                  None \<Rightarrow> Panic
                | Some v \<Rightarrow> clusterAndNamespace cm tags (v, namespace))
          else if scope = TagScopeNCPProject cm
          then (case tag_Tag tag of
                  None \<Rightarrow> Panic
                | Some v \<Rightarrow> clusterAndNamespace cm tags (cluster, v))
          else clusterAndNamespace cm tags (cluster, namespace))"

fun tier1ByClusteredNamespaceFunc :: "Common \<Rightarrow> indexFunc" where
  "tier1ByClusteredNamespaceFunc cm (Tier1Ptr None) = Panic"
| "tier1ByClusteredNamespaceFunc cm (Tier1Ptr (Some t)) =
     (case clusterAndNamespace cm (t1_Tags t) ([], []) of
        Panic \<Rightarrow> Panic
      | Err e \<Rightarrow> Err e
      | Ok (cluster, namespace) \<Rightarrow>
          if cluster \<noteq> [] \<and> namespace \<noteq> []
          then Ok [getClusterNamespaceKey cluster namespace]
          else (case t1_Path t of None \<Rightarrow> Panic | Some p \<Rightarrow> Ok [p]))"
| "tier1ByClusteredNamespaceFunc cm obj = Err IndexFuncUnknownType"

fun parentConfigKeyFunc :: keyFn where
  "parentConfigKeyFunc (ParentConfigPtr None) = Panic"
| "parentConfigKeyFunc (ParentConfigPtr (Some pc)) = Ok (pc_id pc)"
| "parentConfigKeyFunc obj = Err ParentConfigKeyType"

subsection \<open>The index functions registered by the constructors\<close>

text \<open>
  \<open>cache.Indexers\<close> is a Go map from index names to index functions, written as a map
  literal in each constructor \<open>new...Store\<close>. The list holds the entries of the literal in
  the order of the source.
\<close>

type_synonym indexers = "(string \<times> indexFunc) list"

definition IPBlockStore_Indexers :: "Common \<Rightarrow> indexers" where
  "IPBlockStore_Indexers cm =
     [(TagScopeChildSubnetBlock cm, ipBlockByOnlyClusterIndexFunc cm),
      (TagScopeNCPProjectUID cm, projectUidIndexFunc cm)]"

definition IPPoolStore_Indexers :: "Common \<Rightarrow> indexers" where
  "IPPoolStore_Indexers cm = [(TagScopeChildSubnetUID cm, childSubnetUidIndexFunc cm)]"

definition IPPoolBlockSubnetStore_Indexers :: "Common \<Rightarrow> indexers" where
  "IPPoolBlockSubnetStore_Indexers cm = [(TagScopeChildSubnetUID cm, childSubnetUidIndexFunc cm)]"

definition SegmentStore_Indexers :: "Common \<Rightarrow> bool \<Rightarrow> indexers" where
  "SegmentStore_Indexers cm isParent =
     (if \<not> isParent then [(TagScopeChildSubnetUID cm, childSubnetUidIndexFunc cm)]
      else [(TagScopeNCPVNetworkUID cm, segmentByVNetIndexFunc cm)])"

definition SegmentConnectionBindingMapStore_Indexers :: "Common \<Rightarrow> indexers" where
  "SegmentConnectionBindingMapStore_Indexers cm =
     [(TagScopeChildSubnetUID cm, childSubnetUidIndexFunc cm),
      (TagScopeParentConfigUID cm, parentConfigUidIndexFunc cm),
      (childSegmentPathKey, connectionBindingMapByChildSegmentPathIndexFunc),
      (parentSegmentPathKey, connectionBindingMapByParentSegmentPathIndexFunc)]"

definition Tier1Store_Indexers :: "Common \<Rightarrow> indexers" where
  "Tier1Store_Indexers cm =
     [(TagScopeNCPProjectUID cm, projectUidIndexFunc cm),
      (t1PathIndexer, tier1ByPolicyPathFunc),
      (clusteredNamespaceIndexKey, tier1ByClusteredNamespaceFunc cm)]"

definition NATRuleStore_Indexers :: "Common \<Rightarrow> indexers" where
  "NATRuleStore_Indexers cm = [(TagScopeChildSubnetUID cm, childSubnetUidIndexFunc cm)]"

definition ParentConfigStore_Indexers :: "Common \<Rightarrow> indexers" where
  "ParentConfigStore_Indexers cm = [(namespacedNameIndexKey, parentConfigUidIndexFunc cm)]"

subsection \<open>\<open>cache.Indexer\<close>\<close>

text \<open>
  The indexer itself is a library outside the repository. The model keeps of it what the
  services rely on. A store is the list of the objects it holds, each of the struct type
  of the store; \<open>asObject\<close> makes the interface value under which the key function and the index
  functions see an object of the store.

  \<^item> \<open>ByIndex(name, value)\<close> fails when no index function is registered under \<open>name\<close>;
    otherwise it returns the stored objects for which the index function listed \<open>value\<close>
    when they were added. The index functions here are pure, so the model runs them at the
    lookup; an object for which the index function does not return a list is in no index.
    The library fixes no order of the result; the model keeps the order of the store.
  \<^item> \<open>Add(obj)\<close> computes the key of \<open>obj\<close>; an error of the key function is returned,
    wrapped. Otherwise the object is stored under its key, in place of an object stored
    under that key before, and the indices are updated: every registered index function
    is run on the object replaced and on the new object, and an error of an index function
    is a panic.
  \<^item> \<open>Delete(obj)\<close> computes the key the same way, updates the indices for the object
    stored under the key and removes it.

  A Go map literal with a repeated constant key does not compile; the lookup of an index
  function by name takes the last entry of the list under that name.
\<close>

definition indexFuncOf :: "indexers \<Rightarrow> string \<Rightarrow> indexFunc option" where
  "indexFuncOf ixs indexName = map_of (rev ixs) indexName"

definition indexedUnder :: "indexFunc \<Rightarrow> string \<Rightarrow> object \<Rightarrow> bool" where
  "indexedUnder f indexedValue obj =
     (case f obj of Ok vs \<Rightarrow> indexedValue \<in> set vs | Err e \<Rightarrow> False | Panic \<Rightarrow> False)"

definition ByIndex ::
  "indexers \<Rightarrow> ('a \<Rightarrow> object) \<Rightarrow> 'a list \<Rightarrow> string \<Rightarrow> string \<Rightarrow> 'a list result" where
  "ByIndex ixs asObject store indexName indexedValue =
     (case indexFuncOf ixs indexName of
        None \<Rightarrow> Err (IndexNotFound indexName)
      | Some f \<Rightarrow> Ok (filter (\<lambda>x. indexedUnder f indexedValue (asObject x)) store))"

definition indexable :: "indexers \<Rightarrow> object \<Rightarrow> bool" where
  "indexable ixs obj =
     list_all (\<lambda>(indexName, f). case f obj of Ok vs \<Rightarrow> True | Err e \<Rightarrow> False | Panic \<Rightarrow> False) ixs"

definition hasKey :: "keyFn \<Rightarrow> ('a \<Rightarrow> object) \<Rightarrow> string \<Rightarrow> 'a \<Rightarrow> bool" where
  "hasKey keyF asObject key x = (keyF (asObject x) = Ok key)"

definition indexerAdd ::
  "keyFn \<Rightarrow> indexers \<Rightarrow> ('a \<Rightarrow> object) \<Rightarrow> 'a \<Rightarrow> 'a list \<Rightarrow> unit result \<times> 'a list" where
  "indexerAdd keyF ixs asObject obj store =
     (case keyF (asObject obj) of
        Err e \<Rightarrow> (Err (KeyError e), store)
      | Panic \<Rightarrow> (Panic, store)
      | Ok key \<Rightarrow>
          (let store' = (if list_ex (hasKey keyF asObject key) store
                         then map (\<lambda>x. if hasKey keyF asObject key x then obj else x) store
                         else store @ [obj])
           in if list_all (\<lambda>old. indexable ixs (asObject old)) (filter (hasKey keyF asObject key) store)
                 \<and> indexable ixs (asObject obj)
              then (Ok (), store')
              else (Panic, store')))"

definition indexerDelete ::
  "keyFn \<Rightarrow> indexers \<Rightarrow> ('a \<Rightarrow> object) \<Rightarrow> 'a \<Rightarrow> 'a list \<Rightarrow> unit result \<times> 'a list" where
  "indexerDelete keyF ixs asObject obj store =
     (case keyF (asObject obj) of
        Err e \<Rightarrow> (Err (KeyError e), store)
      | Panic \<Rightarrow> (Panic, store)
      | Ok key \<Rightarrow>
          if list_all (\<lambda>old. indexable ixs (asObject old)) (filter (hasKey keyF asObject key) store)
          then (Ok (), filter (\<lambda>x. \<not> hasKey keyF asObject key x) store)
          else (Panic, store))"

subsection \<open>\<open>sets.Set[string]\<close>\<close>

text \<open>
  A Go set is a map; its zero value is the nil map (\<open>None\<close>). \<open>Has\<close> on the nil map is
  false, \<open>Delete\<close> on it does nothing, and \<open>Insert\<close> on it panics (assignment to an entry
  of a nil map).
\<close>

type_synonym stringSet = "string set option"

definition set_Has :: "stringSet \<Rightarrow> string \<Rightarrow> bool" where
  "set_Has m item = (case m of None \<Rightarrow> False | Some S \<Rightarrow> item \<in> S)"

definition set_Insert :: "stringSet \<Rightarrow> string \<Rightarrow> stringSet result" where
  "set_Insert m item = (case m of None \<Rightarrow> Panic | Some S \<Rightarrow> Ok (Some (insert item S)))"

definition set_Delete :: "stringSet \<Rightarrow> string \<Rightarrow> stringSet" where
  "set_Delete m item = (case m of None \<Rightarrow> None | Some S \<Rightarrow> Some (S - {item}))"


section \<open>The service state\<close>

text \<open>
  The stores of \<open>ChildSubnetService\<close> (the objects each holds), the exhausted IP block set,
  and two traces of the calls made on the NSX client: the hierarchical requests patched so
  far, in order, and the number of realized-state listings made. The first eight stores
  hold struct values (\<open>Add(*x)\<close>); the objects of the parent configuration store are the
  pointers that its key function accepts.
\<close>

record State =
  ipBlockStore :: "IpAddressBlock list"
  ipPoolStore :: "IpAddressPool list"
  ipBlockSubnetStore :: "IpAddressPoolBlockSubnet list"
  childSegmentStore :: "Segment list"
  parentSegmentStore :: "Segment list"
  connectionBindingMapStore :: "SegmentConnectionBindingMap list"
  tier1Store :: "Tier1 list"
  natRuleStore :: "PolicyNatRule list"
  parentConfigStore :: "ParentConfig list"
  exhaustedIPBlock :: stringSet
  patched :: "Infra list"
  polls :: nat

text \<open>
  The struct literal of \<open>InitializeChildSubnet\<close>: nine new stores, and no value for
  \<open>exhaustedIPBlock\<close>, which no other line of the sources assigns. The function then
  fills eight of the stores from the backend through \<open>common.Service\<close>, which is not among
  the sources.
\<close>

definition newChildSubnetService :: State where
  "newChildSubnetService =
     \<lparr> ipBlockStore = [], ipPoolStore = [], ipBlockSubnetStore = [], childSegmentStore = [],
       parentSegmentStore = [], connectionBindingMapStore = [], tier1Store = [],
       natRuleStore = [], parentConfigStore = [], exhaustedIPBlock = None,
       patched = [], polls = 0 \<rparr>"

definition MarkedForDelete :: bool where
  "MarkedForDelete = True"

subsection \<open>Lookups (\<open>getByIndex\<close> and the getters built on it)\<close>

text \<open>
  Each \<open>getByIndex\<close> calls \<open>ByIndex\<close> of its store and asserts the struct type of every
  object returned, which holds for the objects of the store.
\<close>

definition IPPoolStore_getByIndex ::
  "Common \<Rightarrow> IpAddressPool list \<Rightarrow> string \<Rightarrow> string \<Rightarrow> IpAddressPool list result" where
  "IPPoolStore_getByIndex cm store key v = ByIndex (IPPoolStore_Indexers cm) IpAddressPoolVal store key v"

definition IPPoolBlockSubnetStore_getByIndex ::
  "Common \<Rightarrow> IpAddressPoolBlockSubnet list \<Rightarrow> string \<Rightarrow> string
    \<Rightarrow> IpAddressPoolBlockSubnet list result" where
  "IPPoolBlockSubnetStore_getByIndex cm store key v =
     ByIndex (IPPoolBlockSubnetStore_Indexers cm) IpAddressPoolBlockSubnetVal store key v"

definition SegmentStore_getByIndex ::
  "Common \<Rightarrow> bool \<Rightarrow> Segment list \<Rightarrow> string \<Rightarrow> string \<Rightarrow> Segment list result" where
  "SegmentStore_getByIndex cm isParent store key v =
     ByIndex (SegmentStore_Indexers cm isParent) SegmentVal store key v"

definition SegmentConnectionBindingMapStore_getByIndex ::
  "Common \<Rightarrow> SegmentConnectionBindingMap list \<Rightarrow> string \<Rightarrow> string
    \<Rightarrow> SegmentConnectionBindingMap list result" where
  "SegmentConnectionBindingMapStore_getByIndex cm store key v =
     ByIndex (SegmentConnectionBindingMapStore_Indexers cm) SegmentConnectionBindingMapVal store key v"

definition Tier1Store_getByIndex ::
  "Common \<Rightarrow> Tier1 list \<Rightarrow> string \<Rightarrow> string \<Rightarrow> Tier1 list result" where
  "Tier1Store_getByIndex cm store index v = ByIndex (Tier1Store_Indexers cm) Tier1Val store index v"

definition NATRuleStore_getByIndex ::
  "Common \<Rightarrow> PolicyNatRule list \<Rightarrow> string \<Rightarrow> string \<Rightarrow> PolicyNatRule list result" where
  "NATRuleStore_getByIndex cm store index v =
     ByIndex (NATRuleStore_Indexers cm) PolicyNatRuleVal store index v"

text \<open>\<open>if len(xs) > 0 { return xs[0], nil }; return nil, nil\<close>\<close>

definition firstOrNil :: "'a list result \<Rightarrow> 'a option result" where
  "firstOrNil r =
     (case r of
        Err e \<Rightarrow> Err e
      | Panic \<Rightarrow> Panic
      | Ok xs \<Rightarrow> (case xs of [] \<Rightarrow> Ok None | x # _ \<Rightarrow> Ok (Some x)))"

definition segment_getByChildSubnet :: "Common \<Rightarrow> State \<Rightarrow> string \<Rightarrow> Segment option result" where
  "segment_getByChildSubnet cm s uid =
     firstOrNil (SegmentStore_getByIndex cm False (childSegmentStore s) (TagScopeChildSubnetUID cm) uid)"

definition listByChildSubnet ::
  "Common \<Rightarrow> State \<Rightarrow> string \<Rightarrow> SegmentConnectionBindingMap list result" where
  "listByChildSubnet cm s uid =
     SegmentConnectionBindingMapStore_getByIndex cm (connectionBindingMapStore s)
       (TagScopeChildSubnetUID cm) uid"

definition listByParentSegmentPath ::
  "Common \<Rightarrow> SegmentConnectionBindingMap list \<Rightarrow> string \<Rightarrow> SegmentConnectionBindingMap list result" where
  "listByParentSegmentPath cm store path =
     SegmentConnectionBindingMapStore_getByIndex cm store parentSegmentPathKey path"

definition GetNATRulesByChildSubnet ::
  "Common \<Rightarrow> State \<Rightarrow> string \<Rightarrow> PolicyNatRule list result" where
  "GetNATRulesByChildSubnet cm s uid =
     NATRuleStore_getByIndex cm (natRuleStore s) (TagScopeChildSubnetUID cm) uid"

definition ipPool_GetByChildSubnet :: "Common \<Rightarrow> State \<Rightarrow> string \<Rightarrow> IpAddressPool option result" where
  "ipPool_GetByChildSubnet cm s uid =
     firstOrNil (IPPoolStore_getByIndex cm (ipPoolStore s) (TagScopeChildSubnetUID cm) uid)"

definition ipSubnet_GetByChildSubnet ::
  "Common \<Rightarrow> State \<Rightarrow> string \<Rightarrow> IpAddressPoolBlockSubnet option result" where
  "ipSubnet_GetByChildSubnet cm s uid =
     firstOrNil (IPPoolBlockSubnetStore_getByIndex cm (ipBlockSubnetStore s)
                   (TagScopeChildSubnetUID cm) uid)"

definition getByPolicyPath :: "Common \<Rightarrow> State \<Rightarrow> string \<Rightarrow> Tier1 option result" where
  "getByPolicyPath cm s policyPath =
     firstOrNil (Tier1Store_getByIndex cm (tier1Store s) t1PathIndexer policyPath)"

definition getNamespacedName :: "string \<Rightarrow> string \<Rightarrow> string" where
  "getNamespacedName namespace name = namespace @ ''/'' @ name"

text \<open>
  \<open>ParentConfigStore.getByNamespaceName\<close> calls \<open>ByIndex\<close> of the embedded indexer and
  returns the first object, asserted to be a \<open>*ParentConfig\<close>.
\<close>

definition getByNamespaceName ::
  "Common \<Rightarrow> State \<Rightarrow> string \<Rightarrow> string \<Rightarrow> ParentConfig option result" where
  "getByNamespaceName cm s name namespace =
     firstOrNil (ByIndex (ParentConfigStore_Indexers cm) (\<lambda>pc. ParentConfigPtr (Some pc))
                   (parentConfigStore s) namespacedNameIndexKey (getNamespacedName namespace name))"

definition getParentConfig :: "Common \<Rightarrow> State \<Rightarrow> ChildSubnet \<Rightarrow> ParentConfig result" where
  "getParentConfig cm s childSubnet =
     (case getByNamespaceName cm s (cs_Parent childSubnet) (cs_Namespace childSubnet) of
        Err e \<Rightarrow> Err e
      | Panic \<Rightarrow> Panic
      | Ok None \<Rightarrow> Err (NoParentConfig (cs_UID childSubnet) (cs_Parent childSubnet))
      | Ok (Some parentConfig) \<Rightarrow> Ok parentConfig)"

definition getTier1ByParent ::
  "Common \<Rightarrow> State \<Rightarrow> string \<Rightarrow> ParentConfig \<Rightarrow> Tier1 option result" where
  "getTier1ByParent cm s childSubnetID parentConfig =
     (let tier1Path = pc_tier1Path parentConfig
      in if tier1Path = [] then Ok None else getByPolicyPath cm s tier1Path)"

subsection \<open>Store updates (\<open>Apply\<close>)\<close>

text \<open>
  \<open>if x.MarkedForDelete != nil && *x.MarkedForDelete { Delete(*x) } else { Add(*x) }\<close>, and the
  loop of the stores whose \<open>Apply\<close> takes a slice; the loop stops at the first failure.
\<close>

definition applyOne ::
  "indexers \<Rightarrow> ('a \<Rightarrow> object) \<Rightarrow> ('a \<Rightarrow> bool option) \<Rightarrow> 'a option \<Rightarrow> 'a list
    \<Rightarrow> unit result \<times> 'a list" where
  "applyOne ixs asObject mfd p store =
     (case p of
        None \<Rightarrow> (Panic, store)
      | Some obj \<Rightarrow>
          if mfd obj = Some True then indexerDelete keyFunc ixs asObject obj store
          else indexerAdd keyFunc ixs asObject obj store)"

fun applyAll ::
  "indexers \<Rightarrow> ('a \<Rightarrow> object) \<Rightarrow> ('a \<Rightarrow> bool option) \<Rightarrow> 'a option list \<Rightarrow> 'a list
    \<Rightarrow> unit result \<times> 'a list" where
  "applyAll ixs asObject mfd [] store = (Ok (), store)"
| "applyAll ixs asObject mfd (p # rest) store =
     (case applyOne ixs asObject mfd p store of
        (Ok u, store') \<Rightarrow> applyAll ixs asObject mfd rest store'
      | (Err e, store') \<Rightarrow> (Err e, store')
      | (Panic, store') \<Rightarrow> (Panic, store'))"

text \<open>
  \<open>Apply(i interface{})\<close>: the dynamic type of the argument. A type assertion \<open>i.(T)\<close> on a
  value of another type panics.
\<close>

datatype iface =
    NilIface
  | PoolPtr "IpAddressPool option"
  | PoolSlice "IpAddressPool option list"
  | SubnetSlice "IpAddressPoolBlockSubnet option list"
  | SegmentSlice "Segment option list"
  | ScbmSlice "SegmentConnectionBindingMap option list"
  | NatRulePtr "PolicyNatRule option"
  | NatRuleSlice "PolicyNatRule option list"

definition IPPoolStore_Apply ::
  "Common \<Rightarrow> iface \<Rightarrow> IpAddressPool list \<Rightarrow> unit result \<times> IpAddressPool list" where
  "IPPoolStore_Apply cm i store =
     (case i of
        PoolPtr ipPool \<Rightarrow>
          applyOne (IPPoolStore_Indexers cm) IpAddressPoolVal pool_MarkedForDelete ipPool store
      | _ \<Rightarrow> (Panic, store))"

definition IPPoolBlockSubnetStore_Apply ::
  "Common \<Rightarrow> iface \<Rightarrow> IpAddressPoolBlockSubnet list \<Rightarrow> unit result \<times> IpAddressPoolBlockSubnet list" where
  "IPPoolBlockSubnetStore_Apply cm i store =
     (case i of
        SubnetSlice ipPoolBlockSubnets \<Rightarrow>
          applyAll (IPPoolBlockSubnetStore_Indexers cm) IpAddressPoolBlockSubnetVal
            ibs_MarkedForDelete ipPoolBlockSubnets store
      | _ \<Rightarrow> (Panic, store))"

definition SegmentStore_Apply ::
  "Common \<Rightarrow> bool \<Rightarrow> iface \<Rightarrow> Segment list \<Rightarrow> unit result \<times> Segment list" where
  "SegmentStore_Apply cm isParent i store =
     (case i of
        SegmentSlice segments \<Rightarrow>
          applyAll (SegmentStore_Indexers cm isParent) SegmentVal seg_MarkedForDelete segments store
      | _ \<Rightarrow> (Panic, store))"

definition SegmentConnectionBindingMapStore_Apply ::
  "Common \<Rightarrow> iface \<Rightarrow> SegmentConnectionBindingMap list
    \<Rightarrow> unit result \<times> SegmentConnectionBindingMap list" where
  "SegmentConnectionBindingMapStore_Apply cm i store =
     (case i of
        ScbmSlice bindingMaps \<Rightarrow>
          applyAll (SegmentConnectionBindingMapStore_Indexers cm) SegmentConnectionBindingMapVal
            scbm_MarkedForDelete bindingMaps store
      | _ \<Rightarrow> (Panic, store))"

definition NATRuleStore_Apply ::
  "Common \<Rightarrow> iface \<Rightarrow> PolicyNatRule list \<Rightarrow> unit result \<times> PolicyNatRule list" where
  "NATRuleStore_Apply cm i store =
     (case i of
        NilIface \<Rightarrow> (Ok (), store)
      | NatRulePtr rule \<Rightarrow>
          applyOne (NATRuleStore_Indexers cm) PolicyNatRuleVal rule_MarkedForDelete rule store
      | _ \<Rightarrow> (Panic, store))"

text \<open>
  \<open>applyResourcesInStore\<close> hands every store a slice. On an error of the first three stores
  the log line reads the \<open>Id\<close> of the object.
\<close>

definition applyNATRulesInStore ::
  "Common \<Rightarrow> PolicyNatRule option list \<Rightarrow> State \<Rightarrow> unit result \<times> State" where
  "applyNATRulesInStore cm natRules s =
     (case NATRuleStore_Apply cm (NatRuleSlice natRules) (natRuleStore s) of
        (r, store') \<Rightarrow> (r, s\<lparr>natRuleStore := store'\<rparr>))"

definition applyBindingMapsInStore ::
  "Common \<Rightarrow> SegmentConnectionBindingMap option list \<Rightarrow> PolicyNatRule option list \<Rightarrow> State
    \<Rightarrow> unit result \<times> State" where
  "applyBindingMapsInStore cm bindingMaps natRules s =
     (case SegmentConnectionBindingMapStore_Apply cm (ScbmSlice bindingMaps)
             (connectionBindingMapStore s) of
        (Ok u, store') \<Rightarrow> applyNATRulesInStore cm natRules (s\<lparr>connectionBindingMapStore := store'\<rparr>)
      | (r, store') \<Rightarrow> (r, s\<lparr>connectionBindingMapStore := store'\<rparr>))"

definition applySegmentInStore ::
  "Common \<Rightarrow> Segment option \<Rightarrow> SegmentConnectionBindingMap option list \<Rightarrow> PolicyNatRule option list
    \<Rightarrow> State \<Rightarrow> unit result \<times> State" where
  "applySegmentInStore cm segment bindingMaps natRules s =
     (case SegmentStore_Apply cm False (SegmentSlice [segment]) (childSegmentStore s) of
        (Ok u, store') \<Rightarrow>
          applyBindingMapsInStore cm bindingMaps natRules (s\<lparr>childSegmentStore := store'\<rparr>)
      | (Err e, store') \<Rightarrow>
          (if segment = None then Panic else Err e, s\<lparr>childSegmentStore := store'\<rparr>)
      | (Panic, store') \<Rightarrow> (Panic, s\<lparr>childSegmentStore := store'\<rparr>))"

definition applyIPSubnetInStore ::
  "Common \<Rightarrow> IpAddressPoolBlockSubnet option \<Rightarrow> Segment option
    \<Rightarrow> SegmentConnectionBindingMap option list \<Rightarrow> PolicyNatRule option list \<Rightarrow> State
    \<Rightarrow> unit result \<times> State" where
  "applyIPSubnetInStore cm nsxIPPoolSubnet segment bindingMaps natRules s =
     (case IPPoolBlockSubnetStore_Apply cm (SubnetSlice [nsxIPPoolSubnet]) (ipBlockSubnetStore s) of
        (Ok u, store') \<Rightarrow>
          applySegmentInStore cm segment bindingMaps natRules (s\<lparr>ipBlockSubnetStore := store'\<rparr>)
      | (Err e, store') \<Rightarrow>
          (if nsxIPPoolSubnet = None then Panic else Err e, s\<lparr>ipBlockSubnetStore := store'\<rparr>)
      | (Panic, store') \<Rightarrow> (Panic, s\<lparr>ipBlockSubnetStore := store'\<rparr>))"

definition applyResourcesInStore ::
  "Common \<Rightarrow> IpAddressPool option \<Rightarrow> IpAddressPoolBlockSubnet option \<Rightarrow> Segment option
    \<Rightarrow> SegmentConnectionBindingMap option list \<Rightarrow> PolicyNatRule option list \<Rightarrow> State
    \<Rightarrow> unit result \<times> State" where
  "applyResourcesInStore cm nsxIPPool nsxIPPoolSubnet segment bindingMaps natRules s =
     (case IPPoolStore_Apply cm (PoolSlice [nsxIPPool]) (ipPoolStore s) of
        (Ok u, store') \<Rightarrow>
          applyIPSubnetInStore cm nsxIPPoolSubnet segment bindingMaps natRules
            (s\<lparr>ipPoolStore := store'\<rparr>)
      | (Err e, store') \<Rightarrow> (if nsxIPPool = None then Panic else Err e, s\<lparr>ipPoolStore := store'\<rparr>)
      | (Panic, store') \<Rightarrow> (Panic, s\<lparr>ipPoolStore := store'\<rparr>))"


section \<open>VLAN allocation: \<open>nextVlan\<close>\<close>

text \<open>The inner loop: \<open>existingVlans.Insert(*bm.VlanTrafficTag)\<close> for each binding map.\<close>

fun insertVlans :: "SegmentConnectionBindingMap list \<Rightarrow> int set \<Rightarrow> int set result" where
  "insertVlans [] existingVlans = Ok existingVlans"
| "insertVlans (bm # bms) existingVlans =
     (case scbm_VlanTrafficTag bm of
        None \<Rightarrow> Panic
      | Some v \<Rightarrow> insertVlans bms (insert v existingVlans))"

text \<open>The outer loop over the parent paths: a failed lookup is logged and skipped.\<close>

fun collectVlans ::
  "Common \<Rightarrow> SegmentConnectionBindingMap list \<Rightarrow> string list \<Rightarrow> int set \<Rightarrow> int set result" where
  "collectVlans cm store [] existingVlans = Ok existingVlans"
| "collectVlans cm store (parentPath # rest) existingVlans =
     (case listByParentSegmentPath cm store parentPath of
        Err e \<Rightarrow> collectVlans cm store rest existingVlans
      | Panic \<Rightarrow> Panic
      | Ok bindingMaps \<Rightarrow>
          (case insertVlans bindingMaps existingVlans of
             Ok existingVlans' \<Rightarrow> collectVlans cm store rest existingVlans'
           | Err e \<Rightarrow> Err e
           | Panic \<Rightarrow> Panic))"

text \<open>\<open>for i := int64(1); i <= 4094; i++ { if !existingVlans.Has(i) { return i, nil } }\<close>\<close>

function firstFreeVlan :: "int set \<Rightarrow> int \<Rightarrow> int option" where
  "firstFreeVlan existingVlans i =
     (if i \<le> 4094
      then (if i \<notin> existingVlans then Some i else firstFreeVlan existingVlans (i + 1))
      else None)"
  by pat_completeness auto
termination
  by (relation "measure (\<lambda>(existingVlans, i). nat (4095 - i))") auto

declare firstFreeVlan.simps [simp del]

definition nextVlan ::
  "Common \<Rightarrow> SegmentConnectionBindingMap list \<Rightarrow> ChildSubnet \<Rightarrow> ParentConfig \<Rightarrow> int result" where
  "nextVlan cm store childSubnet parentConfig =
     (case collectVlans cm store (pc_segmentPaths parentConfig) {} of
        Panic \<Rightarrow> Panic
      | Err e \<Rightarrow> Err e
      | Ok existingVlans \<Rightarrow>
          (case firstFreeVlan existingVlans 1 of
             Some i \<Rightarrow> Ok i
           | None \<Rightarrow> Err (NoValidVlan (cs_UID childSubnet) (cs_Parent childSubnet))))"


section \<open>Deleting a child subnet (\<open>DeleteChildSubnet\<close>)\<close>

definition defaultNAT :: string where
  "defaultNAT = ''DEFAULT''"

definition BuildDefaultSNAT :: PolicyNat where
  "BuildDefaultSNAT =
     \<lparr> nat_Id = Some defaultNAT, nat_DisplayName = Some defaultNAT, nat_NatType = Some ''DEFAULT'',
       nat_MarkedForDelete = None, nat_ResourceType = None, nat_Children = [] \<rparr>"

text \<open>
  \<open>DeleteChildSubnet\<close> from the request built by \<open>WrapHierarchyInfra\<close> on: the patch (when
  there is a request), the store update, and the bookkeeping of the exhausted set, whose
  first line \<open>ipBlockPath := ipPoolSubnet.IpBlockPath\<close> reads through the pointer
  \<open>ipPoolSubnet\<close>.
\<close>

definition patchAndRelease ::
  "Common \<Rightarrow> Backend \<Rightarrow> Infra option \<Rightarrow> Wrapped \<Rightarrow> State \<Rightarrow> unit result \<times> State" where
  "patchAndRelease cm be infraUpdate w s =
     (let sent = (case infraUpdate of None \<Rightarrow> s | Some infra \<Rightarrow> s\<lparr>patched := patched s @ [infra]\<rparr>);
          err = (case infraUpdate of None \<Rightarrow> None | Some infra \<Rightarrow> Patch be infra)
      in case err of
           Some e \<Rightarrow> (Err e, sent)
         | None \<Rightarrow>
             (case applyResourcesInStore cm (w_ipPool w) (w_ipSubnet w) (w_segment w)
                     (w_bindingMaps w) (w_natRules w) sent of
                (Err e, s') \<Rightarrow> (Err e, s')
              | (Panic, s') \<Rightarrow> (Panic, s')
              | (Ok u, s') \<Rightarrow>
                  (case w_ipSubnet w of
                     None \<Rightarrow> (Panic, s')
                   | Some ipPoolSubnet \<Rightarrow>
                       (case ibs_IpBlockPath ipPoolSubnet of
                          None \<Rightarrow> (Ok (), s')
                        | Some ipBlockPath \<Rightarrow>
                            if set_Has (exhaustedIPBlock s') ipBlockPath
                            then (Ok (), s'\<lparr>exhaustedIPBlock :=
                                              set_Delete (exhaustedIPBlock s') ipBlockPath\<rparr>)
                            else (Ok (), s')))))"

text \<open>The lookups of the pool and of its block subnet, their tombstones, and the wrapping.\<close>

definition deletePoolAndWrap ::
  "Common \<Rightarrow> Backend \<Rightarrow> ChildSubnet \<Rightarrow> Segment
    \<Rightarrow> SegmentConnectionBindingMap option list \<Rightarrow> Tier1 option \<Rightarrow> PolicyNatRule option list \<Rightarrow> State
    \<Rightarrow> unit result \<times> State" where
  "deletePoolAndWrap cm be childSubnet childSegment bindingMaps tier1 natRules s =
     (case ipPool_GetByChildSubnet cm s (cs_UID childSubnet) of
        Err e \<Rightarrow> (Err e, s)
      | Panic \<Rightarrow> (Panic, s)
      | Ok ipPool0 \<Rightarrow>
          (let ipPool = map_option (\<lambda>p. p\<lparr>pool_MarkedForDelete := Some MarkedForDelete\<rparr>) ipPool0
           in case ipSubnet_GetByChildSubnet cm s (cs_UID childSubnet) of
                Err e \<Rightarrow> (Err e, s)
              | Panic \<Rightarrow> (Panic, s)
              | Ok ipPoolSubnet0 \<Rightarrow>
                  (let ipPoolSubnet =
                         map_option (\<lambda>p. p\<lparr>ibs_MarkedForDelete := Some MarkedForDelete\<rparr>) ipPoolSubnet0
                   in case WrapHierarchyInfra cm (ConvertToVapi be) ipPool ipPoolSubnet
                             (Some childSegment) bindingMaps tier1 BuildDefaultSNAT natRules of
                        Err e \<Rightarrow> (Err e, s)
                      | Panic \<Rightarrow> (Panic, s)
                      | Ok (infraUpdate, w) \<Rightarrow> patchAndRelease cm be infraUpdate w s)))"

text \<open>
  \<open>DeleteChildSubnet\<close>. The error of \<open>listByChildSubnet\<close> is overwritten unread; on an error
  the list is nil and the loop over it does nothing.
\<close>

definition DeleteChildSubnet ::
  "Common \<Rightarrow> Backend \<Rightarrow> ChildSubnet \<Rightarrow> State \<Rightarrow> unit result \<times> State" where
  "DeleteChildSubnet cm be childSubnet s =
     (case segment_getByChildSubnet cm s (cs_UID childSubnet) of
        Err e \<Rightarrow> (Err e, s)
      | Panic \<Rightarrow> (Panic, s)
      | Ok None \<Rightarrow> (Ok (), s)
      | Ok (Some childSegment0) \<Rightarrow>
          (let childSegment = childSegment0\<lparr>seg_MarkedForDelete := Some MarkedForDelete\<rparr>;
               bindingMaps =
                 (case listByChildSubnet cm s (cs_UID childSubnet) of
                    Ok bms \<Rightarrow> map (\<lambda>bm. Some (bm\<lparr>scbm_MarkedForDelete := Some MarkedForDelete\<rparr>)) bms
                  | _ \<Rightarrow> [])
           in case getParentConfig cm s childSubnet of
                Err e \<Rightarrow> (Err e, s)
              | Panic \<Rightarrow> (Panic, s)
              | Ok parentConfig \<Rightarrow>
                  (case getTier1ByParent cm s (cs_UID childSubnet) parentConfig of
                     Err e \<Rightarrow> (Err e, s)
                   | Panic \<Rightarrow> (Panic, s)
                   | Ok tier1 \<Rightarrow>
                       (case GetNATRulesByChildSubnet cm s (cs_UID childSubnet) of
                          Err e \<Rightarrow> (Err e, s)
                        | Panic \<Rightarrow> (Panic, s)
                        | Ok natRules0 \<Rightarrow>
                            (let natRules =
                                   map (\<lambda>r. Some (r\<lparr>rule_MarkedForDelete := Some MarkedForDelete\<rparr>))
                                     natRules0
                             in deletePoolAndWrap cm be childSubnet childSegment bindingMaps
                                  tier1 natRules s)))))"


section \<open>Builders of the child subnet service (\<open>t1builder.go\<close>)\<close>

definition ipPoolPPrefix :: string where "ipPoolPPrefix = ''ipc''"
definition ipPoolSubnetPrefix :: string where "ipPoolSubnetPrefix = ''ibs''"
definition childSegmentPrefix :: string where "childSegmentPrefix = ''cs''"
definition policyNATRulePrefix :: string where "policyNATRulePrefix = ''pnr''"
definition AccessModePublic :: string where "AccessModePublic = ''Public''"

definition buildIPPoolID :: "Common \<Rightarrow> ChildSubnet \<Rightarrow> string" where
  "buildIPPoolID cm childSubnet = GenerateID cm (cs_UID childSubnet) ipPoolPPrefix [] []"

definition buildIPPoolName :: "Common \<Rightarrow> ChildSubnet \<Rightarrow> string" where
  "buildIPPoolName cm childSubnet =
     GenerateDisplayName cm (cs_Name childSubnet) ipPoolPPrefix [] [] []"

definition buildIPPoolIntentPath :: "Common \<Rightarrow> ChildSubnet \<Rightarrow> string" where
  "buildIPPoolIntentPath cm childSubnet = ''/infra/ip-pools'' @ ''/'' @ buildIPPoolID cm childSubnet"

definition buildIPSubnetID :: "Common \<Rightarrow> ChildSubnet \<Rightarrow> string" where
  "buildIPSubnetID cm childSubnet = GenerateID cm (cs_UID childSubnet) ipPoolSubnetPrefix [] []"

definition buildIPSubnetName :: "Common \<Rightarrow> ChildSubnet \<Rightarrow> string" where
  "buildIPSubnetName cm childSubnet =
     GenerateDisplayName cm (cs_Name childSubnet) ipPoolSubnetPrefix [] [] []"

definition buildIPSubnetIntentPath :: "Common \<Rightarrow> ChildSubnet \<Rightarrow> string" where
  "buildIPSubnetIntentPath cm childSubnet =
     ''/infra/ip-pools'' @ ''/'' @ buildIPPoolID cm childSubnet @ ''/'' @ ''ip-subnets'' @ ''/''
       @ buildIPSubnetID cm childSubnet"

definition buildIPSubnet ::
  "Common \<Rightarrow> ChildSubnet \<Rightarrow> string option \<Rightarrow> Tag list \<Rightarrow> IpAddressPoolBlockSubnet" where
  "buildIPSubnet cm childSubnet ipBlockPath basicTags =
     BuildIPSubnet cm (Some (buildIPSubnetID cm childSubnet)) (Some (buildIPSubnetName cm childSubnet))
       ipBlockPath basicTags (Some (CalculateSubnetSize cm (cs_SubnetPrefixLength childSubnet)))"

definition buildIPPoolWithSubnets ::
  "Common \<Rightarrow> ChildSubnet \<Rightarrow> string option \<Rightarrow> Tag list
    \<Rightarrow> IpAddressPool \<times> IpAddressPoolBlockSubnet" where
  "buildIPPoolWithSubnets cm childSubnet ipBlockPath basicTags =
     (BuildIPPool cm (Some (buildIPPoolID cm childSubnet)) (Some (buildIPPoolName cm childSubnet))
        basicTags,
      buildIPSubnet cm childSubnet ipBlockPath basicTags)"

definition buildSegmentID :: "Common \<Rightarrow> ChildSubnet \<Rightarrow> string" where
  "buildSegmentID cm childSubnet = GenerateID cm (cs_UID childSubnet) childSegmentPrefix [] []"

definition buildSegmentName :: "Common \<Rightarrow> ChildSubnet \<Rightarrow> string" where
  "buildSegmentName cm childSubnet =
     GenerateDisplayName cm (cs_Name childSubnet) childSegmentPrefix [] [] []"

definition buildSegmentIntentPath :: "Common \<Rightarrow> ChildSubnet \<Rightarrow> string" where
  "buildSegmentIntentPath cm childSubnet = ''/infra/segments'' @ ''/'' @ buildSegmentID cm childSubnet"

definition BuildSegment ::
  "GoLib \<Rightarrow> string option \<Rightarrow> string option \<Rightarrow> string option \<Rightarrow> string option \<Rightarrow> IPNet list
    \<Rightarrow> string \<Rightarrow> Tag list \<Rightarrow> Segment" where
  "BuildSegment lib id' name connectivityPath tzPath gateways ipPoolPath tags =
     \<lparr> seg_Id = id', seg_DisplayName = name, seg_Tags = tags,
       seg_ConnectivityPath = connectivityPath, seg_TransportZonePath = tzPath,
       seg_Subnets = map (\<lambda>g. Some (IPNetString lib g)) gateways,
       seg_AddressPoolPaths = [ipPoolPath], seg_MarkedForDelete = None,
       seg_ResourceType = None, seg_Children = [] \<rparr>"

definition buildSegment ::
  "Common \<Rightarrow> GoLib \<Rightarrow> ChildSubnet \<Rightarrow> ParentConfig \<Rightarrow> string \<Rightarrow> IPNet list \<Rightarrow> Tag list \<Rightarrow> Segment" where
  "buildSegment cm lib childSubnet parentConfig ipPoolPath subnetGateways tags =
     BuildSegment lib (Some (buildSegmentID cm childSubnet)) (Some (buildSegmentName cm childSubnet))
       (Some (pc_tier1Path parentConfig)) (Some (pc_transportZonePath parentConfig))
       subnetGateways ipPoolPath tags"

definition buildPolicyNATRuleID :: "Common \<Rightarrow> GoLib \<Rightarrow> ChildSubnet \<Rightarrow> nat \<Rightarrow> string" where
  "buildPolicyNATRuleID cm lib childSubnet index =
     GenerateID cm (cs_UID childSubnet) policyNATRulePrefix [] (FormatInt lib index)"

definition buildPolicyNATRuleName :: "Common \<Rightarrow> GoLib \<Rightarrow> ChildSubnet \<Rightarrow> nat \<Rightarrow> string" where
  "buildPolicyNATRuleName cm lib childSubnet index =
     GenerateDisplayName cm (cs_Name childSubnet) policyNATRulePrefix (FormatInt lib index) [] []"

definition BuildNATRules ::
  "GoLib \<Rightarrow> string option \<Rightarrow> string option \<Rightarrow> string option \<Rightarrow> IPNet \<Rightarrow> bool \<Rightarrow> Tag list
    \<Rightarrow> PolicyNatRule" where
  "BuildNATRules lib id' name natAction networkCIDR isSrc tags =
     (let rule = \<lparr> rule_Id = id', rule_DisplayName = name, rule_Action = natAction,
                    rule_Tags = tags, rule_SourceNetwork = None, rule_DestinationNetwork = None,
                    rule_MarkedForDelete = None, rule_ResourceType = None \<rparr>;
          network = Some (IPNetString lib networkCIDR)
      in if isSrc then rule\<lparr>rule_SourceNetwork := network\<rparr>
         else rule\<lparr>rule_DestinationNetwork := network\<rparr>)"

fun snatRulesFrom ::
  "Common \<Rightarrow> GoLib \<Rightarrow> ChildSubnet \<Rightarrow> string option \<Rightarrow> Tag list \<Rightarrow> nat \<Rightarrow> IPNet list
    \<Rightarrow> PolicyNatRule list" where
  "snatRulesFrom cm lib childSubnet snatAction tags i [] = []"
| "snatRulesFrom cm lib childSubnet snatAction tags i (networkCDIR # rest) =
     (let indexBase = i * 2
      in [BuildNATRules lib (Some (buildPolicyNATRuleID cm lib childSubnet indexBase))
            (Some (buildPolicyNATRuleName cm lib childSubnet indexBase))
            snatAction networkCDIR True tags,
          BuildNATRules lib (Some (buildPolicyNATRuleID cm lib childSubnet (indexBase + 1)))
            (Some (buildPolicyNATRuleName cm lib childSubnet (indexBase + 1)))
            snatAction networkCDIR False tags]
         @ snatRulesFrom cm lib childSubnet snatAction tags (i + 1) rest)"

definition buildPolicySNATRules ::
  "Common \<Rightarrow> GoLib \<Rightarrow> ChildSubnet \<Rightarrow> IPNet list \<Rightarrow> Tag list \<Rightarrow> PolicyNatRule list" where
  "buildPolicySNATRules cm lib childSubnet subnetNetworks tags =
     (let snatAction =
            (if cs_AccessMode childSubnet = AccessModePublic then Some ''NO_SNAT'' else Some ''SNAT'')
      in snatRulesFrom cm lib childSubnet snatAction tags 0 subnetNetworks)"

definition getValidIPBlockPath :: "string \<Rightarrow> ParentConfig \<Rightarrow> string" where
  "getValidIPBlockPath accessMode parentConfig =
     (if accessMode = AccessModePublic then pc_publicIPBlockPath parentConfig
      else pc_privateIPBlockPath parentConfig)"

section \<open>Realized-state polling (\<open>acquireSegmentCIDRAndGateway\<close>)\<close>

fun scanAttributes ::
  "GoLib \<Rightarrow> ExtendedAttribute list \<Rightarrow> IPNet option \<times> IP option \<Rightarrow> (IPNet option \<times> IP option) result" where
  "scanAttributes lib [] acc = Ok acc"
| "scanAttributes lib (attr # rest) (cidr, gw) =
     (case attr_Key attr of
        None \<Rightarrow> Panic
      | Some k \<Rightarrow>
          if k = ''cidr''
          then (case attr_Values attr of
                  [] \<Rightarrow> Panic
                | v # _ \<Rightarrow> scanAttributes lib rest (ParseCIDR lib v, gw))
          else if k = ''gateway_ip''
          then (case attr_Values attr of
                  [] \<Rightarrow> Panic
                | v # _ \<Rightarrow> scanAttributes lib rest (cidr, ParseIP lib v))
          else scanAttributes lib rest (cidr, gw))"

fun scanEntities ::
  "GoLib \<Rightarrow> RealizedEntity list \<Rightarrow> IPNet option \<times> IP option \<Rightarrow> (IPNet option \<times> IP option) result" where
  "scanEntities lib [] acc = Ok acc"
| "scanEntities lib (realizedEntity # rest) acc =
     (case re_EntityType realizedEntity of
        None \<Rightarrow> Panic
      | Some t \<Rightarrow>
          if t = ''IpBlockSubnet''
          then (case scanAttributes lib (re_ExtendedAttributes realizedEntity) acc of
                  Ok acc' \<Rightarrow> scanEntities lib rest acc'
                | Err e \<Rightarrow> Err e
                | Panic \<Rightarrow> Panic)
          else scanEntities lib rest acc)"

text \<open>
  The result is \<open>Ok (Some (cidr, gw))\<close> when both were realized, \<open>Ok None\<close> for the return
  \<open>nil, nil, nil\<close> after the last retry, \<open>Err\<close> for a failed listing. The last argument
  counts the listings made before the call; the new count is returned. The sleep between
  attempts is not represented.
\<close>

fun acquireSegmentCIDRAndGateway ::
  "Common \<Rightarrow> Backend \<Rightarrow> GoLib \<Rightarrow> ChildSubnet \<Rightarrow> nat \<Rightarrow> nat \<Rightarrow> (IPNet \<times> IP) option result \<times> nat" where
  "acquireSegmentCIDRAndGateway cm be lib childSubnet retry k =
     (case RealizedList be k (buildIPSubnetIntentPath cm childSubnet) of
        Inl err \<Rightarrow> (Err err, Suc k)
      | Inr results \<Rightarrow>
          (case scanEntities lib results (None, None) of
             Panic \<Rightarrow> (Panic, Suc k)
           | Err e \<Rightarrow> (Err e, Suc k)
           | Ok (Some cidr, Some gw) \<Rightarrow> (Ok (Some (cidr, gw)), Suc k)
           | Ok _ \<Rightarrow>
               (case retry of
                  0 \<Rightarrow> (Ok None, Suc k)
                | Suc retry' \<Rightarrow> acquireSegmentCIDRAndGateway cm be lib childSubnet retry' (Suc k))))"

declare acquireSegmentCIDRAndGateway.simps [simp del]


section \<open>Creating a child subnet (\<open>createChildSubnets\<close>)\<close>

subsection \<open>The capacity error and the exhausted set\<close>

text \<open>
  \<open>regexp.MustCompile(`path=\[([^\]]+)\]`).FindStringSubmatch\<close>. A match starts where
  \<open>path=[\<close> is followed by a non-empty run of characters other than \<open>]\<close> and then by
  \<open>]\<close>; the group is the run. The result holds the match and the group, or is empty; the
  leftmost match wins.
\<close>

definition matchPathAt :: "string \<Rightarrow> string list" where
  "matchPathAt s =
     (if take 6 s = ''path=[''
      then (let v = takeWhile (\<lambda>c. c \<noteq> CHR '']'') (drop 6 s)
            in if v \<noteq> [] \<and> length v < length (drop 6 s) then [''path=['' @ v @ '']'', v] else [])
      else [])"

fun FindStringSubmatch :: "string \<Rightarrow> string list" where
  "FindStringSubmatch [] = []"
| "FindStringSubmatch (c # s) =
     (case matchPathAt (c # s) of
        [] \<Rightarrow> FindStringSubmatch s
      | m # ms \<Rightarrow> m # ms)"

text \<open>
  The loop over \<open>apiErr.RelatedErrors\<close>: \<open>Ok (Some path)\<close> when an item with code 520012
  carries a path (the loop returns there), \<open>Ok None\<close> when the loop runs to its end.
\<close>

fun scanRelatedErrors :: "RelatedApiError list \<Rightarrow> string option result" where
  "scanRelatedErrors [] = Ok None"
| "scanRelatedErrors (apiErrItem # rest) =
     (case rae_ErrorCode apiErrItem of
        None \<Rightarrow> Panic
      | Some code \<Rightarrow>
          if code = 520012
          then (case rae_ErrorMessage apiErrItem of
                  None \<Rightarrow> Panic
                | Some msg \<Rightarrow>
                    (let pathMatch = FindStringSubmatch msg
                     in if length pathMatch > 1 then Ok (Some (pathMatch ! 1))
                        else scanRelatedErrors rest))
          else scanRelatedErrors rest)"

definition IPBlockExhaustedDesc :: "string \<Rightarrow> string" where
  "IPBlockExhaustedDesc path = ''ip block '' @ path @ '' is exhausted''"

text \<open>
  The branch of \<open>createChildSubnets\<close> taken when the patch of the IP pool fails with
  \<open>err\<close>: \<open>if !service.exhaustedIPBlock.Has(path) { service.exhaustedIPBlock.Insert(path) }\<close>
  and the typed error.
\<close>

definition recordExhaustedIPBlock :: "Backend \<Rightarrow> error \<Rightarrow> State \<Rightarrow> 'a result \<times> State" where
  "recordExhaustedIPBlock be err s =
     (case DumpAPIError be err of
        None \<Rightarrow> (Err err, s)
      | Some apiErr \<Rightarrow>
          (case scanRelatedErrors (ae_RelatedErrors apiErr) of
             Panic \<Rightarrow> (Panic, s)
           | Err e \<Rightarrow> (Err e, s)
           | Ok None \<Rightarrow> (Err err, s)
           | Ok (Some path) \<Rightarrow>
               if \<not> set_Has (exhaustedIPBlock s) path
               then (case set_Insert (exhaustedIPBlock s) path of
                       Panic \<Rightarrow> (Panic, s)
                     | Err e \<Rightarrow> (Err e, s)
                     | Ok exhausted \<Rightarrow>
                         (Err (IPBlockExhaustedError (IPBlockExhaustedDesc path)),
                          s\<lparr>exhaustedIPBlock := exhausted\<rparr>))
               else (Err (IPBlockExhaustedError (IPBlockExhaustedDesc path)), s)))"

subsection \<open>Compensation\<close>

text \<open>
  The deferred function, run with \<open>nsxErr \<noteq> nil\<close>: both objects are tombstoned, wrapped
  again and patched; the answer to that patch is dropped. When the wrapping fails,
  \<open>*deleteInfraIPPool\<close> dereferences nil.
\<close>

definition compensate ::
  "Common \<Rightarrow> Backend \<Rightarrow> IpAddressPool \<Rightarrow> IpAddressPoolBlockSubnet option \<Rightarrow> State
    \<Rightarrow> unit result \<times> State" where
  "compensate cm be nsxIPPool nsxIPPoolSubnet s =
     (case nsxIPPoolSubnet of
        None \<Rightarrow> (Panic, s)
      | Some subnet \<Rightarrow>
          (case WrapHierarchyIPPool cm (ConvertToVapi be)
                  (nsxIPPool\<lparr>pool_MarkedForDelete := Some MarkedForDelete\<rparr>)
                  (Some (subnet\<lparr>ibs_MarkedForDelete := Some MarkedForDelete\<rparr>)) of
             Ok (deleteInfraIPPool, p, q) \<Rightarrow> (Ok (), s\<lparr>patched := patched s @ [deleteInfraIPPool]\<rparr>)
           | Err e \<Rightarrow> (Panic, s)
           | Panic \<Rightarrow> (Panic, s)))"

text \<open>\<open>return "", nil, 0, nsxErr\<close> with \<open>nsxErr\<close> set: the deferred function runs first.\<close>

definition returnNsxErr ::
  "Common \<Rightarrow> Backend \<Rightarrow> IpAddressPool \<Rightarrow> IpAddressPoolBlockSubnet option \<Rightarrow> error \<Rightarrow> State
    \<Rightarrow> 'a result \<times> State" where
  "returnNsxErr cm be nsxIPPool nsxIPPoolSubnet nsxErr s =
     (case compensate cm be nsxIPPool nsxIPPoolSubnet s of
        (Panic, s') \<Rightarrow> (Panic, s')
      | (r, s') \<Rightarrow> (Err nsxErr, s'))"

subsection \<open>The function\<close>

text \<open>
  After the realized CIDR and gateway are known: the segment, its binding maps and the NAT
  rules are built, wrapped and patched, and the stores are updated. A panic leaves
  \<open>nsxErr\<close> nil, so the deferred function does nothing then. When the store update fails,
  the source returns its values together with the error; the model returns the error.
\<close>

definition createSegmentAndNAT ::
  "Common \<Rightarrow> Backend \<Rightarrow> GoLib \<Rightarrow> ChildSubnet \<Rightarrow> ParentConfig \<Rightarrow> Tag list \<Rightarrow> int \<Rightarrow> Tier1 option
    \<Rightarrow> IpAddressPool \<Rightarrow> IpAddressPoolBlockSubnet option \<Rightarrow> IPNet \<Rightarrow> IP \<Rightarrow> State
    \<Rightarrow> (string \<times> IPNet \<times> int) result \<times> State" where
  "createSegmentAndNAT cm be lib childSubnet parentConfig tags vlan tier1 nsxIPPool nsxIPPoolSubnet
     cidr gw s =
     (let gwNet = \<lparr> ipnet_IP = gw, ipnet_Mask = ipnet_Mask cidr \<rparr>;
          ipPoolIntentPath = buildIPPoolIntentPath cm childSubnet;
          segment = buildSegment cm lib childSubnet parentConfig ipPoolIntentPath [gwNet] tags;
          bindingMaps = buildSegmentConnectionBindingMaps cm childSubnet parentConfig vlan tags;
          natRules = map Some (buildPolicySNATRules cm lib childSubnet [cidr] tags)
      in case WrapHierarchySegmentAndNAT cm (ConvertToVapi be) segment bindingMaps tier1
                BuildDefaultSNAT natRules of
           Err e \<Rightarrow> returnNsxErr cm be nsxIPPool nsxIPPoolSubnet e s
         | Panic \<Rightarrow> (Panic, s)
         | Ok (infraUpdate, w) \<Rightarrow>
             (let s1 = s\<lparr>patched := patched s @ [infraUpdate]\<rparr>
              in case Patch be infraUpdate of
                   Some nsxErr \<Rightarrow> returnNsxErr cm be nsxIPPool nsxIPPoolSubnet nsxErr s1
                 | None \<Rightarrow>
                     (case applyResourcesInStore cm (Some nsxIPPool) nsxIPPoolSubnet (w_segment w)
                             (w_bindingMaps w) (w_natRules w) s1 of
                        (Ok u, s2) \<Rightarrow> (Ok (buildSegmentIntentPath cm childSubnet, gwNet, vlan), s2)
                      | (Err e, s2) \<Rightarrow> (Err e, s2)
                      | (Panic, s2) \<Rightarrow> (Panic, s2))))"

text \<open>
  After the IP pool and its block subnet were patched: the polling. When the budget is
  used up, \<open>cidr\<close> is nil and \<open>cidr.Mask\<close> dereferences it.
\<close>

definition afterIPPoolCreated ::
  "Common \<Rightarrow> Backend \<Rightarrow> GoLib \<Rightarrow> ChildSubnet \<Rightarrow> ParentConfig \<Rightarrow> Tag list \<Rightarrow> int \<Rightarrow> Tier1 option
    \<Rightarrow> IpAddressPool \<Rightarrow> IpAddressPoolBlockSubnet option \<Rightarrow> State
    \<Rightarrow> (string \<times> IPNet \<times> int) result \<times> State" where
  "afterIPPoolCreated cm be lib childSubnet parentConfig tags vlan tier1 nsxIPPool nsxIPPoolSubnet s =
     (case acquireSegmentCIDRAndGateway cm be lib childSubnet (RealizeMaxRetries cm) (polls s) of
        (r, k) \<Rightarrow>
          (let s1 = s\<lparr>polls := k\<rparr>
           in case r of
                Err nsxErr \<Rightarrow> returnNsxErr cm be nsxIPPool nsxIPPoolSubnet nsxErr s1
              | Panic \<Rightarrow> (Panic, s1)
              | Ok None \<Rightarrow> (Panic, s1)
              | Ok (Some (cidr, gw)) \<Rightarrow>
                  createSegmentAndNAT cm be lib childSubnet parentConfig tags vlan tier1
                    nsxIPPool nsxIPPoolSubnet cidr gw s1))"

definition createChildSubnets ::
  "Common \<Rightarrow> Backend \<Rightarrow> GoLib \<Rightarrow> ChildSubnet \<Rightarrow> ParentConfig \<Rightarrow> Tag list \<Rightarrow> State
    \<Rightarrow> (string \<times> IPNet \<times> int) result \<times> State" where
  "createChildSubnets cm be lib childSubnet parentConfig tags s =
     (case nextVlan cm (connectionBindingMapStore s) childSubnet parentConfig of
        Err e \<Rightarrow> (Err e, s)
      | Panic \<Rightarrow> (Panic, s)
      | Ok vlan \<Rightarrow>
          (case getTier1ByParent cm s (cs_UID childSubnet) parentConfig of
             Err e \<Rightarrow> (Err e, s)
           | Panic \<Rightarrow> (Panic, s)
           | Ok tier1 \<Rightarrow>
               (let ipBlockPath = Some (getValidIPBlockPath (cs_AccessMode childSubnet) parentConfig)
                in case buildIPPoolWithSubnets cm childSubnet ipBlockPath tags of
                     (nsxIPPool0, nsxIPPoolSubnet0) \<Rightarrow>
                       (case WrapHierarchyIPPool cm (ConvertToVapi be) nsxIPPool0
                               (Some nsxIPPoolSubnet0) of
                          Err e \<Rightarrow> (Err e, s)
                        | Panic \<Rightarrow> (Panic, s)
                        | Ok (infraIPPool, nsxIPPool, nsxIPPoolSubnet) \<Rightarrow>
                            (let s1 = s\<lparr>patched := patched s @ [infraIPPool]\<rparr>
                             in case Patch be infraIPPool of
                                  Some err \<Rightarrow> recordExhaustedIPBlock be err s1
                                | None \<Rightarrow>
                                    afterIPPoolCreated cm be lib childSubnet parentConfig tags vlan
                                      tier1 nsxIPPool nsxIPPoolSubnet s1)))))"


section \<open>Notions used in the statements\<close>

text \<open>
  The chain of ancestor nodes that \<open>buildHNodeFromSubnetConnectionBindingMap\<close> puts above a
  leaf, with any list of nodes below the subnet node.
\<close>

definition ancestorChain :: "VPCResourceInfo \<Rightarrow> hNode list \<Rightarrow> hNode" where
  "ancestorChain info leaves =
     HNode ''Org'' (vpc_OrgID info) None
       [HNode ''Project'' (vpc_ProjectID info) None
         [HNode ''Vpc'' (vpc_VPCID info) None
           [HNode ''Subnet'' (vpc_ID info) None leaves]]]"

text \<open>The leaf node of a binding map.\<close>

definition leafNode :: "string \<Rightarrow> SubnetConnectionBindingMap \<Rightarrow> hNode" where
  "leafNode bmId bm = HNode leafType bmId (Some bm) []"

text \<open>
  The binding map as the loop of the builder leaves it, and the path the loop parses for it.
\<close>

definition markedForDelete :: "bool option \<Rightarrow> SubnetConnectionBindingMap \<Rightarrow> SubnetConnectionBindingMap" where
  "markedForDelete markForDelete bm =
     (if markForDelete \<noteq> None then bm\<lparr>sbm_MarkedForDelete := markForDelete\<rparr> else bm)"

definition parentPathOf :: "string \<Rightarrow> SubnetConnectionBindingMap \<Rightarrow> string option" where
  "parentPathOf subnetPath bm = (if subnetPath = [] then sbm_ParentPath bm else Some subnetPath)"

text \<open>The serialised forms of an ancestor node and of a leaf.\<close>

definition childReference :: "string \<Rightarrow> string \<Rightarrow> StructValue list \<Rightarrow> StructValue" where
  "childReference targetType resID children =
     StructValue ''ChildResourceReference'' (Some resID) None (Some targetType) children"

definition leafWrapper :: "SubnetConnectionBindingMap \<Rightarrow> StructValue" where
  "leafWrapper bm =
     StructValue ''ChildSubnetConnectionBindingMap'' (sbm_Id bm) (sbm_MarkedForDelete bm) None []"

definition referenceChain :: "VPCResourceInfo \<Rightarrow> StructValue list \<Rightarrow> StructValue" where
  "referenceChain info leaves =
     childReference ''Org'' (vpc_OrgID info)
       [childReference ''Project'' (vpc_ProjectID info)
         [childReference ''Vpc'' (vpc_VPCID info)
           [childReference ''Subnet'' (vpc_ID info) leaves]]]"

text \<open>
  The key by which \<open>mergeChildNode\<close> compares an ancestor node with its siblings, and the
  test for a leaf.
\<close>

definition nodeKey :: "hNode \<Rightarrow> string \<times> string" where
  "nodeKey n = (hn_resourceType n, hn_resourceID n)"

definition isLeaf :: "hNode \<Rightarrow> bool" where
  "isLeaf n = (hn_resourceType n = leafType)"

text \<open>
  A tree in which no two siblings that are not leaves have the same key, at any depth.
\<close>

fun mergedOnce :: "hNode \<Rightarrow> bool" where
  "mergedOnce (HNode ty ident bm cns) =
     (distinct (map nodeKey (filter (\<lambda>cn. \<not> isLeaf cn) cns)) \<and> list_all mergedOnce cns)"

text \<open>
  The leaves of a tree, each with the keys of the nodes above it (beginning with the
  ancestors given), its id and its binding map.
\<close>

type_synonym leafEntry = "(string \<times> string) list \<times> string \<times> SubnetConnectionBindingMap option"

fun leavesUnder :: "(string \<times> string) list \<Rightarrow> hNode \<Rightarrow> leafEntry list" where
  "leavesUnder ancestors (HNode ty ident bm cns) =
     (if ty = leafType then [(ancestors, ident, bm)]
      else concat (map (leavesUnder (ancestors @ [(ty, ident)])) cns))"

text \<open>
  What one binding map adds to the tree: nothing when its path does not parse, else one
  leaf below the root and its four ancestors; \<open>None\<close> when the loop panics on it (no
  parent path, no id, or no \<open>Path\<close> to log). \<open>noPanic\<close>: the loop panics on no binding map
  of the batch.
\<close>

definition chainKeys :: "VPCResourceInfo \<Rightarrow> (string \<times> string) list" where
  "chainKeys info =
     [(''OrgRoot'', []), (''Org'', vpc_OrgID info), (''Project'', vpc_ProjectID info),
      (''Vpc'', vpc_VPCID info), (''Subnet'', vpc_ID info)]"

definition leafContribution ::
  "pathParser \<Rightarrow> bool option \<Rightarrow> string \<Rightarrow> SubnetConnectionBindingMap \<Rightarrow> leafEntry list option" where
  "leafContribution parse markForDelete subnetPath bm =
     (case parentPathOf subnetPath bm of
        None \<Rightarrow> None
      | Some p \<Rightarrow>
          (case parse p of
             Inl e \<Rightarrow> (case sbm_Path bm of None \<Rightarrow> None | Some q \<Rightarrow> Some [])
           | Inr info \<Rightarrow>
               (case sbm_Id bm of
                  None \<Rightarrow> None
                | Some bmId \<Rightarrow>
                    Some [(chainKeys info, bmId, Some (markedForDelete markForDelete bm))])))"

definition leafEntries ::
  "pathParser \<Rightarrow> bool option \<Rightarrow> string \<Rightarrow> SubnetConnectionBindingMap \<Rightarrow> leafEntry list" where
  "leafEntries parse markForDelete subnetPath bm =
     (case leafContribution parse markForDelete subnetPath bm of None \<Rightarrow> [] | Some es \<Rightarrow> es)"

definition noPanic ::
  "pathParser \<Rightarrow> bool option \<Rightarrow> string \<Rightarrow> SubnetConnectionBindingMap list \<Rightarrow> bool" where
  "noPanic parse markForDelete subnetPath bms =
     list_all (\<lambda>bm. leafContribution parse markForDelete subnetPath bm \<noteq> None) bms"

section \<open>Example collaborators and data\<close>

text \<open>
  Concrete collaborators on which the definitions are evaluated: helpers that join their
  arguments, tag scopes, a converter that never fails.
\<close>

definition exResourceTypeOf :: "ResourceKind \<Rightarrow> string" where
  "exResourceTypeOf k =
     (case k of
        KIPPool \<Rightarrow> ''IpAddressPool''
      | KIPPoolBlockSubnet \<Rightarrow> ''IpAddressPoolBlockSubnet''
      | KSegment \<Rightarrow> ''Segment''
      | KSegmentConnectionBindingMap \<Rightarrow> ''SegmentConnectionBindingMap''
      | KPolicyNATRule \<Rightarrow> ''PolicyNatRule''
      | KPolicyNAT \<Rightarrow> ''PolicyNat''
      | KTier1 \<Rightarrow> ''Tier1''
      | KSubnetConnectionBindingMap \<Rightarrow> ''SubnetConnectionBindingMap'')"

definition exJoin :: "string list \<Rightarrow> string" where
  "exJoin parts = concat (map (\<lambda>p. if p = [] then [] else CHR ''_'' # p) parts)"

definition exCommon :: Common where
  "exCommon =
     \<lparr> GenerateID = (\<lambda>resID prefix suffix index. prefix @ exJoin [resID, suffix, index]),
       GenerateDisplayName =
         (\<lambda>resName prefix suffix project cluster. prefix @ exJoin [resName, suffix, project, cluster]),
       CalculateSubnetSize = (\<lambda>prefixLength. 2 ^ nat (32 - prefixLength)),
       TagScopeParentConfigUID = ''nsx-op/parent_config_uid'',
       TagScopeChildSubnetUID = ''nsx-op/child_subnet_uid'',
       TagScopeChildSubnetBlock = ''nsx-op/child_subnet_block'',
       TagScopeNCPCluster = ''ncp/cluster'',
       TagScopeNCPProject = ''ncp/project'',
       TagScopeNCPProjectUID = ''ncp/project_uid'',
       TagScopeNCPVNetworkUID = ''ncp/vnet_uid'',
       RealizeMaxRetries = 3,
       ResourceTypeOf = exResourceTypeOf,
       BuildIPPool =
         (\<lambda>id' name tags.
            \<lparr> pool_Id = id', pool_DisplayName = name, pool_Tags = tags,
              pool_MarkedForDelete = None, pool_ResourceType = None, pool_Children = [] \<rparr>),
       BuildIPSubnet =
         (\<lambda>id' name ipBlockPath tags size'.
            \<lparr> ibs_Id = id', ibs_DisplayName = name, ibs_Tags = tags,
              ibs_IpBlockPath = ipBlockPath, ibs_Size = size', ibs_MarkedForDelete = None,
              ibs_ResourceType = [] \<rparr>) \<rparr>"

definition exLib :: GoLib where
  "exLib =
     \<lparr> ParseCIDR = (\<lambda>s. None), ParseIP = (\<lambda>s. None), IPNetString = (\<lambda>n. []),
       FormatInt = (\<lambda>n. replicate n CHR ''i'') \<rparr>"

text \<open>A backend that accepts every request and whose realized state stays empty.\<close>

definition exBackend :: Backend where
  "exBackend =
     \<lparr> Patch = (\<lambda>infra. None), RealizedList = (\<lambda>k path. Inr []), DumpAPIError = (\<lambda>e. None),
       ConvertToVapi = (\<lambda>v. None) \<rparr>"

text \<open>
  A backend that refuses every request with the capacity error of the spec's scenario.
\<close>

definition exCapacityError :: ApiError where
  "exCapacityError =
     \<lparr> ae_RelatedErrors =
         [\<lparr> rae_ErrorCode = Some 520012,
            rae_ErrorMessage =
              Some ''IpAddressBlock path=[/infra/ip-blocks/block-test] has no spare capacity'' \<rparr>] \<rparr>"

definition exFullBackend :: Backend where
  "exFullBackend =
     \<lparr> Patch = (\<lambda>infra. Some (External ''capacity'')), RealizedList = (\<lambda>k path. Inr []),
       DumpAPIError = (\<lambda>e. Some exCapacityError), ConvertToVapi = (\<lambda>v. None) \<rparr>"

definition exBindingMap :: "string \<Rightarrow> string \<Rightarrow> int \<Rightarrow> SegmentConnectionBindingMap" where
  "exBindingMap ident segmentPath vlan =
     BuildSegmentConnectionBindingMap (Some ident) (Some ident) (Some segmentPath) vlan []"

definition exChildSubnet :: ChildSubnet where
  "exChildSubnet =
     \<lparr> cs_UID = ''u1'', cs_Name = ''child1'', cs_Namespace = ''ns1'', cs_Parent = ''vnet1'',
       cs_AccessMode = ''Private'', cs_SubnetPrefixLength = 24, cs_StatusVlan = 0 \<rparr>"

definition exParentConfig :: "string list \<Rightarrow> ParentConfig" where
  "exParentConfig paths =
     \<lparr> pc_id = ''vnet-uid-1'', pc_name = ''vnet1'', pc_namespace = ''ns1'',
       pc_tier1Path = [], pc_transportZonePath = ''/infra/sites/default/tz1'',
       pc_segmentPaths = paths, pc_publicIPBlockPath = ''/infra/ip-blocks/public'',
       pc_privateIPBlockPath = ''/infra/ip-blocks/block-test'' \<rparr>"

definition exTags :: "Tag list" where
  "exTags = [\<lparr>tag_Scope = Some ''nsx-op/child_subnet_uid'', tag_Tag = Some ''u1''\<rparr>]"

definition exSegment :: Segment where
  "exSegment =
     \<lparr> seg_Id = Some ''cs_u1'', seg_DisplayName = Some ''cs_child1'', seg_Tags = exTags,
       seg_ConnectivityPath = None, seg_TransportZonePath = None, seg_Subnets = [],
       seg_AddressPoolPaths = [], seg_MarkedForDelete = None, seg_ResourceType = None,
       seg_Children = [] \<rparr>"




text \<open>A subnet path, a parser that knows it, and binding maps below it.\<close>

definition exSubnetPath :: string where
  "exSubnetPath = ''/orgs/default/projects/p1/vpcs/v1/subnets/s1''"

definition exParse :: pathParser where
  "exParse path =
     (if path = exSubnetPath
      then Inr \<lparr> vpc_OrgID = ''default'', vpc_ProjectID = ''p1'', vpc_VPCID = ''v1'', vpc_ID = ''s1'' \<rparr>
      else Inl (External ''invalid path''))"

definition exSubnetBinding :: "string \<Rightarrow> SubnetConnectionBindingMap" where
  "exSubnetBinding ident =
     \<lparr> sbm_Id = Some ident, sbm_MarkedForDelete = None, sbm_ParentPath = Some exSubnetPath,
       sbm_Path = Some (exSubnetPath @ ''/subnet-connection-binding-maps/'' @ ident),
       sbm_ResourceType = None \<rparr>"

text \<open>The request that creates the IP pool of the example ChildSubnet and its block subnet.\<close>

definition exCreateRequest :: Infra where
  "exCreateRequest =
     wrapInfra
       [StructValue ''ChildIpAddressPool'' (Some ''ipc_u1'') None None
          [StructValue ''ChildIpAddressPoolSubnet'' (Some ''ibs_u1'') None None []]]"

section \<open>What the lookups of the stores return\<close>



text \<open>
  The path index of the tier-1 store asserts a pointer and fails on the values of the
  store: the lookup by policy path finds nothing.
\<close>

lemma getByPolicyPath_nil: "getByPolicyPath cm s policyPath = Ok None"
  by (simp add: getByPolicyPath_def Tier1Store_getByIndex_def ByIndex_def Tier1Store_Indexers_def
      indexFuncOf_def indexedUnder_def firstOrNil_def t1PathIndexer_def
      clusteredNamespaceIndexKey_def)

lemma getTier1ByParent_nil: "getTier1ByParent cm s childSubnetID parentConfig = Ok None"
  by (simp add: getTier1ByParent_def getByPolicyPath_nil Let_def)

text \<open>
  The parent segment path index of the binding map store asserts a pointer and lists no
  value for the values of the store: the lookup by parent segment path finds nothing.
\<close>

lemma listByParentSegmentPath_empty: "listByParentSegmentPath cm store path = Ok []"
  by (simp add: listByParentSegmentPath_def SegmentConnectionBindingMapStore_getByIndex_def
      ByIndex_def SegmentConnectionBindingMapStore_Indexers_def indexFuncOf_def indexedUnder_def
      parentSegmentPathKey_def childSegmentPathKey_def)

text \<open>\<open>applyResourcesInStore\<close> hands \<open>IPPoolStore.Apply\<close> a slice, and \<open>Apply\<close> asserts a pointer.\<close>

lemma applyResourcesInStore_panics:
  "applyResourcesInStore cm nsxIPPool nsxIPPoolSubnet segment bindingMaps natRules s = (Panic, s)"
  by (simp add: applyResourcesInStore_def IPPoolStore_Apply_def)

section \<open>Deleting a child subnet that has no child segment\<close>

text \<open>
  C10. When the child-subnet index of the child segment store returns no segment for the
  ChildSubnet, \<open>DeleteChildSubnet\<close> returns nil and the state is the one it started from:
  no request was patched, no store and not the exhausted IP block set changed.
\<close>

theorem DeleteChildSubnet_without_segment:
  assumes "ByIndex (SegmentStore_Indexers cm False) SegmentVal (childSegmentStore s)
             (TagScopeChildSubnetUID cm) (cs_UID childSubnet) = Ok []"
  shows "DeleteChildSubnet cm be childSubnet s = (Ok (), s)"
  using assms
  by (simp add: DeleteChildSubnet_def segment_getByChildSubnet_def firstOrNil_def
      SegmentStore_getByIndex_def)

text \<open>
  The child segment store holds the segment of the ChildSubnet \<open>u1\<close>, and the ChildSubnet
  \<open>u2\<close> is deleted.
\<close>

theorem DeleteChildSubnet_without_segment_witness:
  "DeleteChildSubnet exCommon exBackend (exChildSubnet\<lparr>cs_UID := ''u2''\<rparr>)
     (newChildSubnetService\<lparr>childSegmentStore := [exSegment]\<rparr>)
   = (Ok (), newChildSubnetService\<lparr>childSegmentStore := [exSegment]\<rparr>)"
proof -
  have "ByIndex (SegmentStore_Indexers exCommon False) SegmentVal
          (childSegmentStore (newChildSubnetService\<lparr>childSegmentStore := [exSegment]\<rparr>))
          (TagScopeChildSubnetUID exCommon) (cs_UID (exChildSubnet\<lparr>cs_UID := ''u2''\<rparr>)) = Ok []"
    by (simp add: ByIndex_def SegmentStore_Indexers_def indexFuncOf_def indexedUnder_def
        childSubnetUidIndexFunc_def exCommon_def exSegment_def exTags_def)
  then show ?thesis by (rule DeleteChildSubnet_without_segment)
qed

section \<open>\<open>DeleteChildSubnet\<close> and the exhausted set\<close>

lemma patchAndRelease_keeps_exhausted:
  "exhaustedIPBlock (snd (patchAndRelease cm be infraUpdate w s)) = exhaustedIPBlock s"
  by (cases infraUpdate; cases "Patch be (the infraUpdate)")
     (simp_all add: patchAndRelease_def applyResourcesInStore_panics)


section \<open>Deleting a child subnet that has no pool subnet\<close>



section \<open>The VLAN allocator\<close>

lemma collectVlans_nothing: "collectVlans cm store paths existingVlans = Ok existingVlans"
  by (induction paths) (simp_all add: listByParentSegmentPath_empty)

text \<open>The counting loop returns the smallest tag from \<open>i\<close> on that is not in the set it is given.\<close>

lemma firstFreeVlan_Some:
  "firstFreeVlan ev i = Some v \<Longrightarrow>
     i \<le> v \<and> v \<le> 4094 \<and> v \<notin> ev \<and> (\<forall>j. i \<le> j \<and> j < v \<longrightarrow> j \<in> ev)"
proof (induction ev i rule: firstFreeVlan.induct)
  case (1 ev i)
  show ?case
  proof (cases "i \<le> 4094 \<and> i \<in> ev")
    case True
    then have "firstFreeVlan ev (i + 1) = Some v"
      using "1.prems" by (simp add: firstFreeVlan.simps[of ev i])
    with "1.IH" True
    have ih: "i + 1 \<le> v \<and> v \<le> 4094 \<and> v \<notin> ev \<and> (\<forall>j. i + 1 \<le> j \<and> j < v \<longrightarrow> j \<in> ev)"
      by simp
    have "j \<in> ev" if "i \<le> j" "j < v" for j
    proof (cases "j = i")
      case True
      then show ?thesis using \<open>i \<le> 4094 \<and> i \<in> ev\<close> by simp
    next
      case False
      then have "i + 1 \<le> j" using that by simp
      then show ?thesis using ih that by simp
    qed
    with ih show ?thesis by auto
  next
    case False
    then show ?thesis using "1.prems" by (auto simp: firstFreeVlan.simps[of ev i] split: if_splits)
  qed
qed

lemma firstFreeVlan_None:
  "firstFreeVlan ev i = None \<Longrightarrow> \<forall>j. i \<le> j \<and> j \<le> 4094 \<longrightarrow> j \<in> ev"
proof (induction ev i rule: firstFreeVlan.induct)
  case (1 ev i)
  show ?case
  proof (cases "i \<le> 4094")
    case True
    then have in_ev: "i \<in> ev" and rest: "firstFreeVlan ev (i + 1) = None"
      using "1.prems" by (auto simp: firstFreeVlan.simps[of ev i] split: if_splits)
    from "1.IH"[OF True _ rest] in_ev
    have ih: "\<forall>j. i + 1 \<le> j \<and> j \<le> 4094 \<longrightarrow> j \<in> ev" by simp
    have "j \<in> ev" if "i \<le> j" "j \<le> 4094" for j
    proof (cases "j = i")
      case True
      then show ?thesis using in_ev by simp
    next
      case False
      then have "i + 1 \<le> j" using that by simp
      then show ?thesis using ih that by simp
    qed
    then show ?thesis by simp
  next
    case False
    then show ?thesis by auto
  qed
qed

lemma nextVlan_one: "nextVlan cm store childSubnet parentConfig = Ok 1"
  by (simp add: nextVlan_def collectVlans_nothing firstFreeVlan.simps[of "{}" 1])

text \<open>
  C5. \<open>nextVlan\<close> returns the tag 1 for every store, ChildSubnet and parent
  configuration: the lookups by parent segment path find no binding map, so no tag is
  collected. The failing input: the store holds binding maps with the tags 1, 2 and 3 on
  the parent segments \<open>/infra/segments/p1\<close> and \<open>/infra/segments/p2\<close> of the parent
  configuration, and the tag returned is 1, which the first of them uses.
\<close>

theorem nextVlan_ignores_tags_in_use:
  "nextVlan cm store childSubnet parentConfig = Ok 1 \<and>
   scbm_SegmentPath (exBindingMap ''scbm_a'' ''/infra/segments/p1'' 1) = Some ''/infra/segments/p1'' \<and>
   scbm_VlanTrafficTag (exBindingMap ''scbm_a'' ''/infra/segments/p1'' 1) = Some 1 \<and>
   pc_segmentPaths (exParentConfig [''/infra/segments/p1'', ''/infra/segments/p2''])
     = [''/infra/segments/p1'', ''/infra/segments/p2''] \<and>
   nextVlan exCommon
     [exBindingMap ''scbm_a'' ''/infra/segments/p1'' 1,
      exBindingMap ''scbm_b'' ''/infra/segments/p1'' 2,
      exBindingMap ''scbm_c'' ''/infra/segments/p2'' 3]
     exChildSubnet (exParentConfig [''/infra/segments/p1'', ''/infra/segments/p2'']) = Ok 1"
  by (simp add: nextVlan_one exBindingMap_def BuildSegmentConnectionBindingMap_def
      exParentConfig_def)

section \<open>Empty batches\<close>

text \<open>
  C7, as amended. With no IP pool, no segment and no NAT rules (or no tier-1),
  \<open>WrapHierarchyInfra\<close> returns a nil request and no error. With no binding maps,
  \<open>buildOrgRootBySubnetConnectionBindingMaps\<close> returns no error and a request that is not
  nil: an \<open>OrgRoot\<close> whose list of children is empty.
\<close>

theorem empty_batch_requests:
  "WrapHierarchyInfra cm cv None ipSubnet None bindingMaps tier1 policyNat []
     = Ok (None, \<lparr> w_ipPool = None, w_ipSubnet = ipSubnet, w_segment = None,
                   w_bindingMaps = bindingMaps, w_natRules = [] \<rparr>) \<and>
   WrapHierarchyInfra cm cv None ipSubnet None bindingMaps None policyNat natRules
     = Ok (None, \<lparr> w_ipPool = None, w_ipSubnet = ipSubnet, w_segment = None,
                   w_bindingMaps = bindingMaps, w_natRules = natRules \<rparr>) \<and>
   buildOrgRootBySubnetConnectionBindingMaps cm parse cv [] markForDelete subnetPath
     = Ok (Some \<lparr> or_Children = [], or_ResourceType = Some ''OrgRoot'' \<rparr>)"
  by (cases tier1)
     (simp_all add: WrapHierarchyInfra_def wrapInfraIPPool_def wrapInfraSegment_def
        wrapInfraTier1_def buildOrgRootBySubnetConnectionBindingMaps_def leafType_def)

text \<open>
  The claim as stated fails for the \<open>OrgRoot\<close> builder: its result for the empty batch is
  not the nil request.
\<close>

theorem buildOrgRoot_empty_counterexample:
  "buildOrgRootBySubnetConnectionBindingMaps exCommon (\<lambda>path. Inl (External ''unparseable''))
     (\<lambda>v. None) [] None [] \<noteq> Ok None"
  by (simp add: buildOrgRootBySubnetConnectionBindingMaps_def leafType_def)

section \<open>Lengths of the built binding maps and of their comparables\<close>

lemma foldl_snoc_map: "foldl (\<lambda>acc x. acc @ [f x]) acc xs = acc @ map f xs"
  by (induction xs arbitrary: acc) simp_all

lemma buildSegmentConnectionBindingMaps_eq:
  "buildSegmentConnectionBindingMaps cm childSubnet parentConfig vlanTag tags =
     replicate (length (pc_segmentPaths parentConfig)) None @
     map (\<lambda>parentPath.
            Some (bindingMapFor cm childSubnet vlanTag
                    (tags @ [\<lparr> tag_Scope = Some (TagScopeParentConfigUID cm),
                               tag_Tag = Some (pc_id parentConfig) \<rparr>]) parentPath))
       (pc_segmentPaths parentConfig)"
  by (simp add: buildSegmentConnectionBindingMaps_def Let_def foldl_snoc_map)

lemma SegmentConnectionBindingMapsToComparable_eq:
  "SegmentConnectionBindingMapsToComparable scbms =
     replicate (length scbms) NilComparable @ map ComparableScbm scbms"
  by (simp add: SegmentConnectionBindingMapsToComparable_def Let_def
      SegmentConnectionBindingMapToComparable_def foldl_snoc_map)

text \<open>
  C8. The failing input: a parent configuration with the one segment path
  \<open>/infra/segments/p1\<close>. \<open>buildSegmentConnectionBindingMaps\<close> returns two entries, the first
  of them nil; \<open>SegmentConnectionBindingMapsToComparable\<close> maps a list of one binding map to
  two comparables, the first of them nil. In general the results have twice the length
  and start with as many nil entries as there are inputs.
\<close>

theorem built_binding_maps_have_nil_entries:
  "buildSegmentConnectionBindingMaps exCommon exChildSubnet
      (exParentConfig [''/infra/segments/p1'']) 4 []
     = [None,
        Some (BuildSegmentConnectionBindingMap (Some ''scbm_u1_p1'') (Some ''scbm_child1_p1'')
                (Some ''/infra/segments/p1'') 4
                [\<lparr>tag_Scope = Some ''nsx-op/parent_config_uid'', tag_Tag = Some ''vnet-uid-1''\<rparr>])] \<and>
   SegmentConnectionBindingMapsToComparable [Some (exBindingMap ''scbm_u1_p1'' ''/infra/segments/p1'' 4)]
     = [NilComparable, ComparableScbm (Some (exBindingMap ''scbm_u1_p1'' ''/infra/segments/p1'' 4))] \<and>
   length (buildSegmentConnectionBindingMaps cm childSubnet parentConfig vlanTag tags)
     = 2 * length (pc_segmentPaths parentConfig) \<and>
   take (length (pc_segmentPaths parentConfig))
       (buildSegmentConnectionBindingMaps cm childSubnet parentConfig vlanTag tags)
     = replicate (length (pc_segmentPaths parentConfig)) None \<and>
   length (SegmentConnectionBindingMapsToComparable scbms) = 2 * length scbms \<and>
   take (length scbms) (SegmentConnectionBindingMapsToComparable scbms)
     = replicate (length scbms) NilComparable"
  by (simp add: buildSegmentConnectionBindingMaps_eq SegmentConnectionBindingMapsToComparable_eq
      exParentConfig_def bindingMapFor_def Let_def getSegmentIDFromPath_def exCommon_def exJoin_def
      exBindingMap_def
      buildSegmentBindingMapID_def buildSegmentBindingMapName_def exChildSubnet_def
      segmentConnectionBindingMapPrefix_def)

section \<open>The canonical value of a binding map\<close>

text \<open>
  C6, as amended. \<open>Value\<close> of a segment connection binding map is made of its id, its
  display name and its tags and of nothing else: two binding maps have the same value
  exactly when they agree on these three fields. The revision is left out, and so are the
  VLAN traffic tag and the segment path.
\<close>

theorem scbm_Value_eq_iff:
  "scbm_Value a = scbm_Value b \<longleftrightarrow>
     scbm_Id a = scbm_Id b \<and> scbm_DisplayName a = scbm_DisplayName b \<and> scbm_Tags a = scbm_Tags b"
  by (auto simp: scbm_Value_def)

text \<open>
  The claim as stated fails: two binding maps with the same id, display name and tags and
  the VLAN traffic tags 10 and 11 have the same value, and the comparison of the one as
  existing with the other as desired reports nothing changed.
\<close>

theorem scbm_Value_vlan_counterexample:
  "scbm_VlanTrafficTag (exBindingMap ''scbm_u1_p1'' ''/infra/segments/p1'' 10)
     \<noteq> scbm_VlanTrafficTag (exBindingMap ''scbm_u1_p1'' ''/infra/segments/p1'' 11) \<and>
   scbm_Value (exBindingMap ''scbm_u1_p1'' ''/infra/segments/p1'' 10)
     = scbm_Value (exBindingMap ''scbm_u1_p1'' ''/infra/segments/p1'' 11) \<and>
   CompareResources
       [ComparableScbm (Some (exBindingMap ''scbm_u1_p1'' ''/infra/segments/p1'' 10))]
       [ComparableScbm (Some (exBindingMap ''scbm_u1_p1'' ''/infra/segments/p1'' 11))]
     = ([], [])"
  by (simp add: exBindingMap_def BuildSegmentConnectionBindingMap_def scbm_Value_def
      CompareResources_def isChanged_def isStale_def Comparable_Key_def Comparable_Value_def
      scbm_Key_def)

section \<open>The capacity error of the IP block\<close>

lemma matchPathAt_path:
  assumes "v \<noteq> []" "CHR '']'' \<notin> set v"
  shows "matchPathAt (''path=['' @ v @ '']'' @ post) = [''path=['' @ v @ '']'', v]"
proof -
  have "takeWhile (\<lambda>c. c \<noteq> CHR '']'') (v @ '']'' @ post) = v"
    using assms(2) by (induction v) auto
  then show ?thesis using assms(1) by (simp add: matchPathAt_def)
qed

lemma matchPathAt_no_bracket:
  assumes "CHR ''['' \<notin> set (c # pre)"
  shows "matchPathAt ((c # pre) @ ''path=['' @ rest) = []"
proof -
  have "take 6 ((c # pre) @ ''path=['' @ rest) \<noteq> ''path=[''"
  proof
    assume eq: "take 6 ((c # pre) @ ''path=['' @ rest) = ''path=[''"
    have "take 6 ((c # pre) @ ''path=['' @ rest)
        = take 6 (c # pre) @ take (5 - length pre) (''path=['' @ rest)"
      by simp
    moreover have "set (take (5 - length pre) (''path=['' @ rest)) \<subseteq> set (take 5 (''path=['' @ rest))"
      by (rule set_take_subset_set_take) simp
    ultimately have "set (take 6 ((c # pre) @ ''path=['' @ rest)) \<subseteq> set (c # pre) \<union> set ''path=''"
      using set_take_subset[of 6 "c # pre"] by auto
    moreover have "CHR ''['' \<in> set (take 6 ((c # pre) @ ''path=['' @ rest))"
      unfolding eq by simp
    ultimately have "CHR ''['' \<in> set (c # pre) \<union> set ''path=''" by blast
    with assms show False by simp
  qed
  then show ?thesis unfolding matchPathAt_def by (simp only: if_False)
qed

lemma FindStringSubmatch_path:
  assumes "v \<noteq> []" "CHR '']'' \<notin> set v" "CHR ''['' \<notin> set pre"
  shows "FindStringSubmatch (pre @ ''path=['' @ v @ '']'' @ post) = [''path=['' @ v @ '']'', v]"
  using assms(3)
proof (induction pre)
  case Nil
  from matchPathAt_path[OF assms(1,2), of post] show ?case by simp
next
  case (Cons c pre)
  have "matchPathAt ((c # pre) @ ''path=['' @ (v @ '']'' @ post)) = []"
    using Cons.prems by (rule matchPathAt_no_bracket)
  then have "FindStringSubmatch ((c # pre) @ ''path=['' @ v @ '']'' @ post)
      = FindStringSubmatch (pre @ ''path=['' @ v @ '']'' @ post)"
    by simp
  then show ?case using Cons by simp
qed

lemma matchPathAt_sound:
  assumes "matchPathAt s = m # ms"
  shows "\<exists>v post. s = ''path=['' @ v @ '']'' @ post \<and> v \<noteq> [] \<and> CHR '']'' \<notin> set v \<and>
           m # ms = [''path=['' @ v @ '']'', v]"
proof -
  define r where "r = drop 6 s"
  define v where "v = takeWhile (\<lambda>c. c \<noteq> CHR '']'') r"
  define d where "d = dropWhile (\<lambda>c. c \<noteq> CHR '']'') r"
  from assms have pre: "take 6 s = ''path=[''" and ne: "v \<noteq> []" and lt: "length v < length r"
    and res: "m # ms = [''path=['' @ v @ '']'', v]"
    by (auto simp: matchPathAt_def Let_def r_def v_def split: if_splits)
  have split: "r = v @ d" by (simp add: v_def d_def)
  with lt have "d \<noteq> []" by auto
  then have "hd d = CHR '']''" using hd_dropWhile[of "\<lambda>c. c \<noteq> CHR '']''" r] by (simp add: d_def)
  with \<open>d \<noteq> []\<close> obtain post where d: "d = CHR '']'' # post" by (cases d) auto
  have "s = take 6 s @ r" by (simp add: r_def)
  with pre split d have s: "s = ''path=['' @ v @ '']'' @ post" by simp
  have "CHR '']'' \<notin> set v" by (auto simp: v_def dest: set_takeWhileD)
  with s ne res show ?thesis by blast
qed

lemma FindStringSubmatch_sound:
  "FindStringSubmatch msg = m # ms \<Longrightarrow>
     \<exists>pre v post. msg = pre @ ''path=['' @ v @ '']'' @ post \<and> v \<noteq> [] \<and> CHR '']'' \<notin> set v \<and>
        m # ms = [''path=['' @ v @ '']'', v]"
proof (induction msg)
  case Nil
  then show ?case by simp
next
  case (Cons c s)
  show ?case
  proof (cases "matchPathAt (c # s)")
    case Nil
    with Cons.prems have "FindStringSubmatch s = m # ms" by simp
    from Cons.IH[OF this] obtain pre v post where
      *: "s = pre @ ''path=['' @ v @ '']'' @ post" "v \<noteq> []" "CHR '']'' \<notin> set v"
      "m # ms = [''path=['' @ v @ '']'', v]" by blast
    from *(1) have "c # s = (c # pre) @ ''path=['' @ v @ '']'' @ post" by simp
    with *(2-4) show ?thesis by blast
  next
    case (Cons m' ms')
    with Cons.prems have "matchPathAt (c # s) = m # ms" by simp
    from matchPathAt_sound[OF this] obtain v post where
      *: "c # s = ''path=['' @ v @ '']'' @ post" "v \<noteq> []" "CHR '']'' \<notin> set v"
      "m # ms = [''path=['' @ v @ '']'', v]" by blast
    from *(1) have "c # s = [] @ ''path=['' @ v @ '']'' @ post" by simp
    with *(2-4) show ?thesis by blast
  qed
qed

lemma scanRelatedErrors_first_capacity_error:
  assumes "\<forall>x \<in> set before. \<exists>c. rae_ErrorCode x = Some c \<and> c \<noteq> 520012"
    and "rae_ErrorCode item = Some 520012"
    and "rae_ErrorMessage item = Some msg"
    and "FindStringSubmatch msg = [m, path]"
  shows "scanRelatedErrors (before @ item # after) = Ok (Some path)"
  using assms(1)
proof (induction before)
  case Nil
  then show ?case using assms(2-4) by simp
next
  case (Cons x xs)
  then obtain c where "rae_ErrorCode x = Some c" "c \<noteq> 520012" by auto
  then show ?case using Cons by simp
qed

lemma createChildSubnets_patch_failed:
  assumes built: "buildIPPoolWithSubnets cm childSubnet
                 (Some (getValidIPBlockPath (cs_AccessMode childSubnet) parentConfig)) tags
               = (nsxIPPool0, nsxIPPoolSubnet0)"
    and wrap: "WrapHierarchyIPPool cm (ConvertToVapi be) nsxIPPool0 (Some nsxIPPoolSubnet0)
               = Ok (infraIPPool, nsxIPPool, nsxIPPoolSubnet)"
    and patch: "Patch be infraIPPool = Some err"
  shows "createChildSubnets cm be lib childSubnet parentConfig tags s =
           recordExhaustedIPBlock be err (s\<lparr>patched := patched s @ [infraIPPool]\<rparr>)"
  unfolding createChildSubnets_def
  by (simp only: nextVlan_one getTier1ByParent_nil built wrap patch result.case prod.case
      option.case Let_def)

text \<open>
  With a first related error of code 520012 whose message holds \<open>path=[...]\<close>: on the nil
  set, \<open>Has\<close> is false and \<open>Insert\<close> panics; on a set that was made, the path is inserted
  (which leaves a set that holds it as it is) and the typed error is returned.
\<close>

lemma recordExhaustedIPBlock_nil_set:
  assumes "DumpAPIError be err = Some apiErr"
    and "scanRelatedErrors (ae_RelatedErrors apiErr) = Ok (Some path)"
    and "exhaustedIPBlock s = None"
  shows "recordExhaustedIPBlock be err s = (Panic, s)"
  using assms by (simp add: recordExhaustedIPBlock_def set_Has_def set_Insert_def)

lemma recordExhaustedIPBlock_made_set:
  assumes "DumpAPIError be err = Some apiErr"
    and "scanRelatedErrors (ae_RelatedErrors apiErr) = Ok (Some path)"
    and "exhaustedIPBlock s = Some S"
  shows "recordExhaustedIPBlock be err s
           = (Err (IPBlockExhaustedError (IPBlockExhaustedDesc path)),
              s\<lparr>exhaustedIPBlock := Some (insert path S)\<rparr>)"
proof (cases "path \<in> S")
  case True
  then have "s\<lparr>exhaustedIPBlock := Some (insert path S)\<rparr> = s"
    using assms(3) by (simp add: insert_absorb)
  then show ?thesis
    using assms True by (simp add: recordExhaustedIPBlock_def set_Has_def)
next
  case False
  then show ?thesis
    using assms by (simp add: recordExhaustedIPBlock_def set_Has_def set_Insert_def)
qed

text \<open>
  C3. The failing input: the service as \<open>InitializeChildSubnet\<close> builds it, and a backend
  that answers the request creating the IP pool and its block subnet with the capacity
  error of the spec's scenario, whose message holds
  \<open>path=[/infra/ip-blocks/block-test]\<close>. The path is extracted; the exhausted set is the
  nil map, so \<open>Has\<close> is false and \<open>Insert\<close> panics. No typed error is returned and no
  path is recorded.
\<close>

theorem createChildSubnets_capacity_error_panics:
  "createChildSubnets exCommon exFullBackend exLib exChildSubnet (exParentConfig [])
      exTags newChildSubnetService
     = (Panic, newChildSubnetService\<lparr>patched := [exCreateRequest]\<rparr>)"
proof -
  let ?blk = "Some (getValidIPBlockPath (cs_AccessMode exChildSubnet) (exParentConfig []))"
  let ?built = "buildIPPoolWithSubnets exCommon exChildSubnet ?blk exTags"
  let ?s1 = "newChildSubnetService\<lparr>patched := patched newChildSubnetService @ [exCreateRequest]\<rparr>"
  have built: "?built = (fst ?built, snd ?built)" by simp
  have wrap: "WrapHierarchyIPPool exCommon (ConvertToVapi exFullBackend) (fst ?built) (Some (snd ?built))
      = Ok (exCreateRequest,
            (fst ?built)\<lparr>pool_ResourceType := Some ''IpAddressPool'',
                          pool_Children := [StructValue ''ChildIpAddressPoolSubnet'' (Some ''ibs_u1'') None None []]\<rparr>,
            Some ((snd ?built)\<lparr>ibs_ResourceType := ''IpAddressPoolBlockSubnet''\<rparr>))"
    by (simp add: WrapHierarchyIPPool_def wrapIPPoolAndSubnets_def wrapIPPool_def convertToVapi_def
        exFullBackend_def exCommon_def exResourceTypeOf_def buildIPPoolWithSubnets_def
        buildIPSubnet_def buildIPPoolID_def buildIPSubnetID_def exChildSubnet_def exJoin_def
        ipPoolPPrefix_def ipPoolSubnetPrefix_def exCreateRequest_def)
  have patch: "Patch exFullBackend exCreateRequest = Some (External ''capacity'')"
    by (simp add: exFullBackend_def)
  have dump: "DumpAPIError exFullBackend (External ''capacity'') = Some exCapacityError"
    by (simp add: exFullBackend_def)
  have path: "FindStringSubmatch ''IpAddressBlock path=[/infra/ip-blocks/block-test] has no spare capacity''
      = [''path=[/infra/ip-blocks/block-test]'', ''/infra/ip-blocks/block-test'']"
    using FindStringSubmatch_path[of "''/infra/ip-blocks/block-test''" "''IpAddressBlock ''"
        "'' has no spare capacity''"]
    by simp
  let ?item = "\<lparr> rae_ErrorCode = Some 520012,
        rae_ErrorMessage =
          Some ''IpAddressBlock path=[/infra/ip-blocks/block-test] has no spare capacity'' \<rparr>"
  have before: "\<forall>x \<in> set []. \<exists>c. rae_ErrorCode x = Some c \<and> c \<noteq> 520012" by simp
  have code: "rae_ErrorCode ?item = Some 520012" by simp
  have msg: "rae_ErrorMessage ?item
      = Some ''IpAddressBlock path=[/infra/ip-blocks/block-test] has no spare capacity''"
    by simp
  have "scanRelatedErrors ([] @ ?item # []) = Ok (Some ''/infra/ip-blocks/block-test'')"
    using before code msg path by (rule scanRelatedErrors_first_capacity_error)
  then have scan: "scanRelatedErrors (ae_RelatedErrors exCapacityError)
      = Ok (Some ''/infra/ip-blocks/block-test'')"
    by (simp only: exCapacityError_def ApiError.simps append_Nil)
  have nil: "exhaustedIPBlock ?s1 = None" by (simp add: newChildSubnetService_def)
  have "createChildSubnets exCommon exFullBackend exLib exChildSubnet (exParentConfig [])
      exTags newChildSubnetService = (Panic, ?s1)"
    unfolding createChildSubnets_patch_failed[OF built wrap patch]
    using dump scan nil by (rule recordExhaustedIPBlock_nil_set)
  then show ?thesis by (simp add: newChildSubnetService_def)
qed

section \<open>Failures after the IP pool was created\<close>

lemma acquire_never_realized:
  assumes "\<And>k. RealizedList be k (buildIPSubnetIntentPath cm childSubnet) = Inr []"
  shows "acquireSegmentCIDRAndGateway cm be lib childSubnet retry k = (Ok None, Suc (k + retry))"
proof (induction retry arbitrary: k)
  case 0
  show ?case by (simp add: acquireSegmentCIDRAndGateway.simps[of _ _ _ _ 0] assms)
next
  case (Suc retry)
  show ?case by (simp add: acquireSegmentCIDRAndGateway.simps[of _ _ _ _ "Suc retry"] assms Suc)
qed

lemma createChildSubnets_created:
  assumes built: "buildIPPoolWithSubnets cm childSubnet
                 (Some (getValidIPBlockPath (cs_AccessMode childSubnet) parentConfig)) tags
               = (nsxIPPool0, nsxIPPoolSubnet0)"
    and wrap: "WrapHierarchyIPPool cm (ConvertToVapi be) nsxIPPool0 (Some nsxIPPoolSubnet0)
               = Ok (infraIPPool, nsxIPPool, nsxIPPoolSubnet)"
    and patch: "Patch be infraIPPool = None"
  shows "createChildSubnets cm be lib childSubnet parentConfig tags s =
           afterIPPoolCreated cm be lib childSubnet parentConfig tags 1 None nsxIPPool
             nsxIPPoolSubnet (s\<lparr>patched := patched s @ [infraIPPool]\<rparr>)"
  unfolding createChildSubnets_def
  by (simp only: nextVlan_one getTier1ByParent_nil built wrap patch result.case prod.case
      option.case Let_def)

text \<open>
  C2. The failing input: the service as \<open>InitializeChildSubnet\<close> builds it; the backend
  accepts the request that creates the IP pool and its block subnet, and the realized
  state never shows a CIDR and a gateway. After the four listings (three retries)
  \<open>acquireSegmentCIDRAndGateway\<close> returns nil, nil, nil; \<open>createChildSubnets\<close> then panics
  on \<open>cidr.Mask\<close>. The only request patched is the creating one: nothing was tombstoned,
  no compensating delete was sent, no error was returned.
\<close>

theorem createChildSubnets_unrealized_panics:
  "createChildSubnets exCommon exBackend exLib exChildSubnet (exParentConfig [])
      exTags newChildSubnetService
     = (Panic, newChildSubnetService\<lparr>patched := [exCreateRequest], polls := 4\<rparr>)"
proof -
  let ?blk = "Some (getValidIPBlockPath (cs_AccessMode exChildSubnet) (exParentConfig []))"
  let ?built = "buildIPPoolWithSubnets exCommon exChildSubnet ?blk exTags"
  have built: "?built = (fst ?built, snd ?built)" by simp
  have wrap: "WrapHierarchyIPPool exCommon (ConvertToVapi exBackend) (fst ?built) (Some (snd ?built))
      = Ok (exCreateRequest,
            (fst ?built)\<lparr>pool_ResourceType := Some ''IpAddressPool'',
                          pool_Children := [StructValue ''ChildIpAddressPoolSubnet'' (Some ''ibs_u1'') None None []]\<rparr>,
            Some ((snd ?built)\<lparr>ibs_ResourceType := ''IpAddressPoolBlockSubnet''\<rparr>))"
    by (simp add: WrapHierarchyIPPool_def wrapIPPoolAndSubnets_def wrapIPPool_def convertToVapi_def
        exBackend_def exCommon_def exResourceTypeOf_def buildIPPoolWithSubnets_def
        buildIPSubnet_def buildIPPoolID_def buildIPSubnetID_def exChildSubnet_def exJoin_def
        ipPoolPPrefix_def ipPoolSubnetPrefix_def exCreateRequest_def)
  have patch: "Patch exBackend exCreateRequest = None"
    by (simp add: exBackend_def)
  have poll: "acquireSegmentCIDRAndGateway exCommon exBackend exLib exChildSubnet
                (RealizeMaxRetries exCommon) 0 = (Ok None, 4)"
    by (simp add: acquire_never_realized exBackend_def exCommon_def)
  have after: "afterIPPoolCreated exCommon exBackend exLib exChildSubnet (exParentConfig []) exTags 1 None p q
                 (newChildSubnetService\<lparr>patched := patched newChildSubnetService @ [exCreateRequest]\<rparr>)
               = (Panic, newChildSubnetService\<lparr>patched := [exCreateRequest], polls := 4\<rparr>)" for p q
    using poll by (simp add: afterIPPoolCreated_def newChildSubnetService_def)
  show ?thesis
    unfolding createChildSubnets_created[OF built wrap patch] by (rule after)
qed


text \<open>
  The steps after the creation whose failure sets \<open>nsxErr\<close> do lead to the compensation: a
  failed listing of the realized state, and a failed patch of the segment, its binding maps
  and the NAT rules. With a converter that does not fail, the compensation patches the
  tombstoned pool and block subnet and the error is returned.
\<close>

lemma afterIPPoolCreated_polling_error:
  assumes "acquireSegmentCIDRAndGateway cm be lib childSubnet (RealizeMaxRetries cm) (polls s)
             = (Err nsxErr, k)"
  shows "afterIPPoolCreated cm be lib childSubnet parentConfig tags vlan tier1 nsxIPPool
           nsxIPPoolSubnet s
         = returnNsxErr cm be nsxIPPool nsxIPPoolSubnet nsxErr (s\<lparr>polls := k\<rparr>)"
  using assms by (simp add: afterIPPoolCreated_def)

lemma afterIPPoolCreated_unrealized:
  assumes "acquireSegmentCIDRAndGateway cm be lib childSubnet (RealizeMaxRetries cm) (polls s)
             = (Ok None, k)"
  shows "afterIPPoolCreated cm be lib childSubnet parentConfig tags vlan tier1 nsxIPPool
           nsxIPPoolSubnet s
         = (Panic, s\<lparr>polls := k\<rparr>)"
  using assms by (simp add: afterIPPoolCreated_def)

lemma createSegmentAndNAT_patch_error:
  assumes "WrapHierarchySegmentAndNAT cm (ConvertToVapi be)
             (buildSegment cm lib childSubnet parentConfig (buildIPPoolIntentPath cm childSubnet)
                [\<lparr> ipnet_IP = gw, ipnet_Mask = ipnet_Mask cidr \<rparr>] tags)
             (buildSegmentConnectionBindingMaps cm childSubnet parentConfig vlan tags) tier1
             BuildDefaultSNAT (map Some (buildPolicySNATRules cm lib childSubnet [cidr] tags))
           = Ok (infraUpdate, w)"
    and "Patch be infraUpdate = Some nsxErr"
  shows "createSegmentAndNAT cm be lib childSubnet parentConfig tags vlan tier1 nsxIPPool
           nsxIPPoolSubnet cidr gw s
         = returnNsxErr cm be nsxIPPool nsxIPPoolSubnet nsxErr
             (s\<lparr>patched := patched s @ [infraUpdate]\<rparr>)"
  using assms by (simp add: createSegmentAndNAT_def Let_def)

lemma returnNsxErr_compensates:
  assumes "\<And>v. ConvertToVapi be v = None"
  shows "returnNsxErr cm be nsxIPPool (Some subnet) nsxErr s
         = (Err nsxErr,
            s\<lparr>patched := patched s @
                [wrapInfra
                   [StructValue ''ChildIpAddressPool'' (pool_Id nsxIPPool) (Some True) None
                      (pool_Children nsxIPPool @
                       [StructValue ''ChildIpAddressPoolSubnet'' (ibs_Id subnet) (Some True) None []])]]\<rparr>)"
  by (simp add: returnNsxErr_def compensate_def WrapHierarchyIPPool_def wrapIPPoolAndSubnets_def
      wrapIPPool_def convertToVapi_def assms MarkedForDelete_def)

section \<open>Merging the leaves of a batch\<close>

lemma buildHNode_chain:
  assumes "parse p = Inr info" "sbm_Id bm = Some bmId"
  shows "buildHNodeFromSubnetConnectionBindingMap parse p bm = Ok (ancestorChain info [leafNode bmId bm])"
  using assms by (simp add: buildHNodeFromSubnetConnectionBindingMap_def ancestorChain_def leafNode_def)

lemma merge_first_chain:
  "mergeChildNode (HNode ''OrgRoot'' [] None []) (ancestorChain info leaves)
     = HNode ''OrgRoot'' [] None [ancestorChain info leaves]"
  by (simp add: ancestorChain_def mergeChildNode.simps leafType_def appendChildNode_def)

lemma merge_second_chain:
  "mergeChildNode (HNode ''OrgRoot'' [] None [ancestorChain info leaves])
       (ancestorChain info [leafNode bmId bm])
     = HNode ''OrgRoot'' [] None [ancestorChain info (leaves @ [leafNode bmId bm])]"
  by (simp add: ancestorChain_def leafNode_def mergeChildNode.simps leafType_def appendChildNode_def)

lemma mergeBindingMaps_step:
  assumes "parentPathOf subnetPath bm = Some p" "parse p = Inr info" "sbm_Id bm = Some bmId"
  shows "mergeBindingMaps parse markForDelete subnetPath (bm # rest) rootNode
     = mergeBindingMaps parse markForDelete subnetPath rest
         (mergeChildNode rootNode
            (ancestorChain info [leafNode bmId (markedForDelete markForDelete bm)]))"
proof -
  let ?bm = "markedForDelete markForDelete bm"
  have id': "sbm_Id ?bm = Some bmId" using assms(3) by (simp add: markedForDelete_def)
  have path: "(if subnetPath = [] then sbm_ParentPath ?bm else Some subnetPath) = Some p"
    using assms(1) by (auto simp: markedForDelete_def parentPathOf_def split: if_splits)
  have node: "buildHNodeFromSubnetConnectionBindingMap parse p ?bm
      = Ok (ancestorChain info [leafNode bmId ?bm])"
    using assms(2) id' by (rule buildHNode_chain)
  have "mergeBindingMaps parse markForDelete subnetPath (bm # rest) rootNode
      = (case (if subnetPath = [] then sbm_ParentPath ?bm else Some subnetPath) of
           None \<Rightarrow> Panic
         | Some parentPath \<Rightarrow>
             (case buildHNodeFromSubnetConnectionBindingMap parse parentPath ?bm of
                Err e \<Rightarrow>
                  (case sbm_Path ?bm of
                     None \<Rightarrow> Panic
                   | Some p \<Rightarrow> mergeBindingMaps parse markForDelete subnetPath rest rootNode)
              | Panic \<Rightarrow> Panic
              | Ok orgNode \<Rightarrow>
                  mergeBindingMaps parse markForDelete subnetPath rest
                    (mergeChildNode rootNode orgNode)))"
    by (simp only: mergeBindingMaps.simps Let_def markedForDelete_def)
  also have "\<dots> = mergeBindingMaps parse markForDelete subnetPath rest
         (mergeChildNode rootNode (ancestorChain info [leafNode bmId ?bm]))"
    by (simp only: path node option.case result.case)
  finally show ?thesis .
qed

lemma mergeBindingMaps_two:
  assumes "parentPathOf subnetPath a = Some pa" "parentPathOf subnetPath b = Some pb"
    and "parse pa = Inr info" "parse pb = Inr info"
    and "sbm_Id a = Some ia" "sbm_Id b = Some ib"
  shows "mergeBindingMaps parse markForDelete subnetPath [a, b] (HNode ''OrgRoot'' [] None [])
     = Ok (HNode ''OrgRoot'' [] None
             [ancestorChain info
                [leafNode ia (markedForDelete markForDelete a),
                 leafNode ib (markedForDelete markForDelete b)]])"
  by (simp add: mergeBindingMaps_step[where parse = parse and p = pa, OF assms(1,3,5)]
      mergeBindingMaps_step[where parse = parse and p = pb, OF assms(2,4,6)]
      merge_first_chain merge_second_chain del: mergeBindingMaps.simps(2))

lemma buildTree_two:
  assumes "\<And>v. cv v = None" "sbm_Id a = Some ia" "sbm_Id b = Some ib"
  shows "buildTree cm cv (HNode ''OrgRoot'' [] None [ancestorChain info [leafNode ia a, leafNode ib b]])
     = Ok [referenceChain info [leafWrapper a, leafWrapper b]]"
  using assms
  by (simp add: ancestorChain_def leafNode_def referenceChain_def childReference_def leafWrapper_def
      leafType_def wrapSubnetBindingMap_def wrapChildResourceReference_def convertToVapi_def)

lemma two_leaves_merged:
  assumes "parentPathOf subnetPath a = Some pa" "parentPathOf subnetPath b = Some pb"
    and "parse pa = Inr info" "parse pb = Inr info"
    and "sbm_Id a = Some ia" "sbm_Id b = Some ib"
  shows "mergeBindingMaps parse markForDelete subnetPath [a, b] (HNode ''OrgRoot'' [] None [])
           = Ok (HNode ''OrgRoot'' [] None
                   [ancestorChain info
                      [leafNode ia (markedForDelete markForDelete a),
                       leafNode ib (markedForDelete markForDelete b)]]) \<and>
         mergeBindingMaps parse markForDelete subnetPath [b, a] (HNode ''OrgRoot'' [] None [])
           = Ok (HNode ''OrgRoot'' [] None
                   [ancestorChain info
                      [leafNode ib (markedForDelete markForDelete b),
                       leafNode ia (markedForDelete markForDelete a)]]) \<and>
         ((\<forall>v. cv v = None) \<longrightarrow>
            buildOrgRootBySubnetConnectionBindingMaps cm parse cv [a, b] markForDelete subnetPath
              = Ok (Some \<lparr> or_Children =
                             [referenceChain info
                                [leafWrapper (markedForDelete markForDelete a),
                                 leafWrapper (markedForDelete markForDelete b)]],
                           or_ResourceType = Some ''OrgRoot'' \<rparr>) \<and>
            buildOrgRootBySubnetConnectionBindingMaps cm parse cv [b, a] markForDelete subnetPath
              = Ok (Some \<lparr> or_Children =
                             [referenceChain info
                                [leafWrapper (markedForDelete markForDelete b),
                                 leafWrapper (markedForDelete markForDelete a)]],
                           or_ResourceType = Some ''OrgRoot'' \<rparr>))"
proof -
  have ida: "sbm_Id (markedForDelete markForDelete a) = Some ia"
    and idb: "sbm_Id (markedForDelete markForDelete b) = Some ib"
    using assms(5,6) by (simp_all add: markedForDelete_def)
  note ab = mergeBindingMaps_two[where parse = parse and pa = pa and pb = pb
      and markForDelete = markForDelete, OF assms(1,2,3,4,5,6)]
  note ba = mergeBindingMaps_two[where parse = parse and pa = pb and pb = pa
      and markForDelete = markForDelete, OF assms(2,1,4,3,6,5)]
  have "buildOrgRootBySubnetConnectionBindingMaps cm parse cv [a, b] markForDelete subnetPath
      = Ok (Some \<lparr> or_Children =
                     [referenceChain info
                        [leafWrapper (markedForDelete markForDelete a),
                         leafWrapper (markedForDelete markForDelete b)]],
                   or_ResourceType = Some ''OrgRoot'' \<rparr>)" if "\<forall>v. cv v = None"
    unfolding buildOrgRootBySubnetConnectionBindingMaps_def Let_def ab
    using buildTree_two[of cv "markedForDelete markForDelete a" ia
        "markedForDelete markForDelete b" ib cm info] that ida idb
    by simp
  moreover have "buildOrgRootBySubnetConnectionBindingMaps cm parse cv [b, a] markForDelete subnetPath
      = Ok (Some \<lparr> or_Children =
                     [referenceChain info
                        [leafWrapper (markedForDelete markForDelete b),
                         leafWrapper (markedForDelete markForDelete a)]],
                   or_ResourceType = Some ''OrgRoot'' \<rparr>)" if "\<forall>v. cv v = None"
    unfolding buildOrgRootBySubnetConnectionBindingMaps_def Let_def ba
    using buildTree_two[of cv "markedForDelete markForDelete b" ib
        "markedForDelete markForDelete a" ia cm info] that ida idb
    by simp
  ultimately show ?thesis using ab ba by blast
qed

lemma updateFirst_None: "updateFirst P f cs = None \<longleftrightarrow> (\<forall>c \<in> set cs. \<not> P c)"
  by (induction cs) (auto split: option.splits)

lemma updateFirst_Some:
  "updateFirst P f cs = Some cs' \<Longrightarrow>
     \<exists>pre c post. cs = pre @ c # post \<and> P c \<and> (\<forall>x \<in> set pre. \<not> P x) \<and> cs' = pre @ f c # post"
proof (induction cs arbitrary: cs')
  case Nil
  then show ?case by simp
next
  case (Cons a cs)
  show ?case
  proof (cases "P a")
    case True
    with Cons.prems have "cs' = f a # cs" by simp
    with True show ?thesis by (intro exI[of _ "[]"] exI[of _ a] exI[of _ cs]) simp
  next
    case False
    with Cons.prems obtain cs'' where u: "updateFirst P f cs = Some cs''" and c: "cs' = a # cs''"
      by (auto split: option.splits)
    from Cons.IH[OF u] obtain pre c post where
      "cs = pre @ c # post" "P c" "\<forall>x \<in> set pre. \<not> P x" "cs'' = pre @ f c # post" by blast
    with False c show ?thesis
      by (intro exI[of _ "a # pre"] exI[of _ c] exI[of _ post]) simp
  qed
qed

lemma mergeChildNode_key [simp]:
  "hn_resourceType (mergeChildNode n node) = hn_resourceType n"
  "hn_resourceID (mergeChildNode n node) = hn_resourceID n"
  by (cases node; simp add: mergeChildNode.simps appendChildNode_def split: option.splits)+

lemma foldl_mergeChildNode_key [simp]:
  "hn_resourceType (foldl mergeChildNode cn chNs) = hn_resourceType cn"
  "hn_resourceID (foldl mergeChildNode cn chNs) = hn_resourceID cn"
  by (induction chNs arbitrary: cn) simp_all

lemma mergedOnce_children:
  "mergedOnce n \<longleftrightarrow>
     distinct (map nodeKey (filter (\<lambda>cn. \<not> isLeaf cn) (hn_childNodes n))) \<and>
     list_all mergedOnce (hn_childNodes n)"
  by (cases n) simp

lemma mergeChildNode_mergedOnce:
  "mergedOnce n \<Longrightarrow> mergedOnce node \<Longrightarrow> mergedOnce (mergeChildNode n node)"
proof (induction n node rule: mergeChildNode.induct)
  case (1 n ty ident bm chNs)
  let ?node = "HNode ty ident bm chNs"
  let ?P = "\<lambda>cn. hn_resourceType cn = ty \<and> hn_resourceID cn = ident"
  from "1.prems"(1) have dist: "distinct (map nodeKey (filter (\<lambda>cn. \<not> isLeaf cn) (hn_childNodes n)))"
    and all: "list_all mergedOnce (hn_childNodes n)"
    by (simp_all add: mergedOnce_children)
  show ?case
  proof (cases "ty = leafType")
    case True
    then have "mergeChildNode n ?node = appendChildNode n ?node" by (simp add: mergeChildNode.simps)
    moreover have "isLeaf ?node" using True by (simp add: isLeaf_def)
    ultimately show ?thesis using dist all "1.prems"(2)
      by (simp add: appendChildNode_def)
  next
    case False
    show ?thesis
    proof (cases "updateFirst ?P (\<lambda>cn. foldl mergeChildNode cn chNs) (hn_childNodes n)")
      case None
      then have m: "mergeChildNode n ?node = appendChildNode n ?node"
        using False by (simp add: mergeChildNode.simps)
      from None have "\<forall>c \<in> set (hn_childNodes n). \<not> ?P c" by (simp add: updateFirst_None)
      then have "nodeKey ?node \<notin> set (map nodeKey (filter (\<lambda>cn. \<not> isLeaf cn) (hn_childNodes n)))"
        by (auto simp: nodeKey_def)
      then show ?thesis using m dist all "1.prems"(2) False
        by (simp add: appendChildNode_def isLeaf_def)
    next
      case (Some cns')
      then have m: "mergeChildNode n ?node
          = HNode (hn_resourceType n) (hn_resourceID n) (hn_bindingMap n) cns'"
        using False by (simp add: mergeChildNode.simps)
      from updateFirst_Some[OF Some] obtain pre c post where
        cs: "hn_childNodes n = pre @ c # post" and c: "?P c"
        and cns': "cns' = pre @ foldl mergeChildNode c chNs # post" by blast
      have chN: "list_all mergedOnce chNs" using "1.prems"(2) by simp
      have step: "mergedOnce x \<Longrightarrow> mergedOnce (foldl mergeChildNode x xs)"
        if "set xs \<subseteq> set chNs" for x xs
        using that
      proof (induction xs arbitrary: x)
        case Nil
        then show ?case by simp
      next
        case (Cons y ys)
        have "mergedOnce y" using Cons.prems(2) chN by (auto simp: list_all_iff)
        then have "mergedOnce (mergeChildNode x y)"
          using "1.IH"[OF False, of y x] Cons.prems by simp
        then show ?case using Cons by simp
      qed
      have "mergedOnce c" using all cs by (simp add: list_all_iff)
      then have c': "mergedOnce (foldl mergeChildNode c chNs)" using step[of chNs c] by simp
      have keys: "map nodeKey (filter (\<lambda>cn. \<not> isLeaf cn) cns')
          = map nodeKey (filter (\<lambda>cn. \<not> isLeaf cn) (hn_childNodes n))"
        by (simp add: cs cns' isLeaf_def nodeKey_def)
      have "list_all mergedOnce cns'" using all c' by (simp add: cs cns')
      with keys dist m show ?thesis by simp
    qed
  qed
qed

lemma leavesUnder_children:
  "hn_resourceType n \<noteq> leafType \<Longrightarrow>
   leavesUnder anc n = concat (map (leavesUnder (anc @ [nodeKey n])) (hn_childNodes n))"
  by (cases n) (simp add: nodeKey_def)

lemma mset_concat_map_append:
  "mset (concat (map f (xs @ [y]))) = mset (concat (map f xs)) + mset (f y)"
  by simp

lemma mergeChildNode_leaves:
  "hn_resourceType n \<noteq> leafType \<Longrightarrow>
   mset (leavesUnder anc (mergeChildNode n node))
     = mset (leavesUnder anc n) + mset (leavesUnder (anc @ [nodeKey n]) node)"
proof (induction n node arbitrary: anc rule: mergeChildNode.induct)
  case (1 n ty ident bm chNs)
  let ?node = "HNode ty ident bm chNs"
  let ?P = "\<lambda>cn. hn_resourceType cn = ty \<and> hn_resourceID cn = ident"
  let ?anc = "anc @ [nodeKey n]"
  note nl = "1.prems"
  have app: "mset (leavesUnder anc (appendChildNode n ?node))
      = mset (leavesUnder anc n) + mset (leavesUnder ?anc ?node)"
    using nl by (cases n) (simp add: appendChildNode_def nodeKey_def)
  show ?case
  proof (cases "ty = leafType")
    case True
    then show ?thesis using app by (simp add: mergeChildNode.simps)
  next
    case False
    show ?thesis
    proof (cases "updateFirst ?P (\<lambda>cn. foldl mergeChildNode cn chNs) (hn_childNodes n)")
      case None
      then show ?thesis using app False by (simp add: mergeChildNode.simps)
    next
      case (Some cns')
      then have m: "mergeChildNode n ?node
          = HNode (hn_resourceType n) (hn_resourceID n) (hn_bindingMap n) cns'"
        using False by (simp add: mergeChildNode.simps)
      from updateFirst_Some[OF Some] obtain pre c post where
        cs: "hn_childNodes n = pre @ c # post" and c: "?P c"
        and cns': "cns' = pre @ foldl mergeChildNode c chNs # post" by blast
      have cnl: "hn_resourceType c \<noteq> leafType" using c False by simp
      have step: "hn_resourceType x \<noteq> leafType \<Longrightarrow>
          mset (leavesUnder ?anc (foldl mergeChildNode x xs))
            = mset (leavesUnder ?anc x)
              + mset (concat (map (leavesUnder (?anc @ [nodeKey x])) xs))"
        if "set xs \<subseteq> set chNs" for x xs
        using that
      proof (induction xs arbitrary: x)
        case Nil
        then show ?case by simp
      next
        case (Cons y ys)
        have y: "mset (leavesUnder ?anc (mergeChildNode x y))
            = mset (leavesUnder ?anc x) + mset (leavesUnder (?anc @ [nodeKey x]) y)"
          using "1.IH"[OF False, of y x ?anc] Cons.prems by simp
        have "mset (leavesUnder ?anc (foldl mergeChildNode (mergeChildNode x y) ys))
            = mset (leavesUnder ?anc (mergeChildNode x y))
              + mset (concat (map (leavesUnder (?anc @ [nodeKey (mergeChildNode x y)])) ys))"
          using Cons.IH[of "mergeChildNode x y"] Cons.prems by simp
        then show ?case using y by (simp add: nodeKey_def)
      qed
      have c': "mset (leavesUnder ?anc (foldl mergeChildNode c chNs))
          = mset (leavesUnder ?anc c) + mset (leavesUnder ?anc ?node)"
        using step[of chNs c] cnl c False by (simp add: nodeKey_def)
      have "leavesUnder anc (mergeChildNode n ?node)
          = concat (map (leavesUnder ?anc) cns')"
        using nl by (simp add: m nodeKey_def)
      moreover have "leavesUnder anc n = concat (map (leavesUnder ?anc) (hn_childNodes n))"
        using nl by (rule leavesUnder_children)
      ultimately show ?thesis using c' by (simp add: cs cns')
    qed
  qed
qed

lemma mergedOnce_chain: "mergedOnce (ancestorChain info [leafNode bmId bm])"
  by (simp add: ancestorChain_def leafNode_def isLeaf_def)

lemma leaves_chain:
  "leavesUnder [(''OrgRoot'', [])] (ancestorChain info [leafNode bmId bm])
     = [(chainKeys info, bmId, Some bm)]"
  by (simp add: ancestorChain_def leafNode_def leafType_def chainKeys_def)

lemma mergeBindingMaps_skip:
  assumes "parentPathOf subnetPath bm = Some p" "parse p = Inl e" "sbm_Path bm = Some q"
  shows "mergeBindingMaps parse markForDelete subnetPath (bm # rest) rootNode
     = mergeBindingMaps parse markForDelete subnetPath rest rootNode"
proof -
  let ?bm = "markedForDelete markForDelete bm"
  have path: "(if subnetPath = [] then sbm_ParentPath ?bm else Some subnetPath) = Some p"
    using assms(1) by (auto simp: markedForDelete_def parentPathOf_def split: if_splits)
  have node: "buildHNodeFromSubnetConnectionBindingMap parse p ?bm = Err e"
    using assms(2) by (simp add: buildHNodeFromSubnetConnectionBindingMap_def)
  have q: "sbm_Path ?bm = Some q" using assms(3) by (simp add: markedForDelete_def)
  have "mergeBindingMaps parse markForDelete subnetPath (bm # rest) rootNode
      = (case (if subnetPath = [] then sbm_ParentPath ?bm else Some subnetPath) of
           None \<Rightarrow> Panic
         | Some parentPath \<Rightarrow>
             (case buildHNodeFromSubnetConnectionBindingMap parse parentPath ?bm of
                Err e \<Rightarrow>
                  (case sbm_Path ?bm of
                     None \<Rightarrow> Panic
                   | Some p \<Rightarrow> mergeBindingMaps parse markForDelete subnetPath rest rootNode)
              | Panic \<Rightarrow> Panic
              | Ok orgNode \<Rightarrow>
                  mergeBindingMaps parse markForDelete subnetPath rest
                    (mergeChildNode rootNode orgNode)))"
    by (simp only: mergeBindingMaps.simps Let_def markedForDelete_def)
  also have "\<dots> = mergeBindingMaps parse markForDelete subnetPath rest rootNode"
    by (simp only: path node q option.case result.case)
  finally show ?thesis .
qed

lemma mergeBindingMaps_leaves:
  assumes "noPanic parse markForDelete subnetPath bms"
    and "nodeKey rootNode = (''OrgRoot'', [])" and "mergedOnce rootNode"
  shows "\<exists>t. mergeBindingMaps parse markForDelete subnetPath bms rootNode = Ok t \<and> mergedOnce t \<and>
           mset (leavesUnder [] t)
             = mset (leavesUnder [] rootNode)
               + mset (concat (map (leafEntries parse markForDelete subnetPath) bms))"
  using assms
proof (induction bms arbitrary: rootNode)
  case Nil
  then show ?case by simp
next
  case (Cons bm bms)
  from Cons.prems(1) have rest: "noPanic parse markForDelete subnetPath bms"
    and this_one: "leafContribution parse markForDelete subnetPath bm \<noteq> None"
    by (simp_all add: noPanic_def)
  from this_one obtain p where p: "parentPathOf subnetPath bm = Some p"
    by (auto simp: leafContribution_def split: option.splits)
  have root_type: "hn_resourceType rootNode \<noteq> leafType"
    using Cons.prems(2) by (simp add: nodeKey_def leafType_def)
  show ?case
  proof (cases "parse p")
    case (Inl e)
    with this_one p obtain q where q: "sbm_Path bm = Some q"
      by (auto simp: leafContribution_def split: option.splits)
    have none: "leafEntries parse markForDelete subnetPath bm = []"
      using p Inl q by (simp add: leafEntries_def leafContribution_def)
    from Cons.IH[OF rest Cons.prems(2,3)] show ?thesis
      by (simp add: mergeBindingMaps_skip[where parse = parse and p = p, OF p Inl q] none
          del: mergeBindingMaps.simps(2))
  next
    case (Inr info)
    with this_one p obtain bmId where i: "sbm_Id bm = Some bmId"
      by (auto simp: leafContribution_def split: option.splits)
    let ?chain = "ancestorChain info [leafNode bmId (markedForDelete markForDelete bm)]"
    let ?root = "mergeChildNode rootNode ?chain"
    have one: "leafEntries parse markForDelete subnetPath bm
        = [(chainKeys info, bmId, Some (markedForDelete markForDelete bm))]"
      using p Inr i by (simp add: leafEntries_def leafContribution_def)
    have key: "nodeKey ?root = (''OrgRoot'', [])"
      using Cons.prems(2) by (simp add: nodeKey_def)
    have once: "mergedOnce ?root"
      using Cons.prems(3) mergedOnce_chain by (rule mergeChildNode_mergedOnce)
    have leaves: "mset (leavesUnder [] ?root)
        = mset (leavesUnder [] rootNode)
          + {#(chainKeys info, bmId, Some (markedForDelete markForDelete bm))#}"
      using mergeChildNode_leaves[OF root_type, of "[]" ?chain] Cons.prems(2)
      by (simp add: leaves_chain)
    from Cons.IH[OF rest key once] obtain t where
      t: "mergeBindingMaps parse markForDelete subnetPath bms ?root = Ok t" "mergedOnce t"
      "mset (leavesUnder [] t)
         = mset (leavesUnder [] ?root)
           + mset (concat (map (leafEntries parse markForDelete subnetPath) bms))"
      by blast
    have "mergeBindingMaps parse markForDelete subnetPath (bm # bms) rootNode = Ok t"
      using t(1) by (simp only: mergeBindingMaps_step[where parse = parse and p = p, OF p Inr i])
    moreover have "mset (leavesUnder [] t)
        = mset (leavesUnder [] rootNode)
          + mset (concat (map (leafEntries parse markForDelete subnetPath) (bm # bms)))"
      using t(3) leaves one by simp
    ultimately show ?thesis using t(2) by blast
  qed
qed

lemma mset_concat_map: "mset (concat (map f xs)) = (\<Sum>x\<in>#mset xs. mset (f x))"
  by (induction xs) simp_all

lemma mset_concat_map_perm:
  "mset xs = mset ys \<Longrightarrow> mset (concat (map f xs)) = mset (concat (map f ys))"
  by (simp add: mset_concat_map)

lemma merged_trees_of_permuted_batches:
  assumes "noPanic parse markForDelete subnetPath bms" "mset bms' = mset bms"
  shows "\<exists>t t'.
           mergeBindingMaps parse markForDelete subnetPath bms (HNode ''OrgRoot'' [] None []) = Ok t \<and>
           mergeBindingMaps parse markForDelete subnetPath bms' (HNode ''OrgRoot'' [] None []) = Ok t' \<and>
           mergedOnce t \<and> mergedOnce t' \<and>
           mset (leavesUnder [] t) = mset (concat (map (leafEntries parse markForDelete subnetPath) bms)) \<and>
           mset (leavesUnder [] t) = mset (leavesUnder [] t')"
proof -
  have "set bms' = set bms" using assms(2) by (rule mset_eq_setD)
  with assms(1) have np': "noPanic parse markForDelete subnetPath bms'"
    by (simp add: noPanic_def list_all_iff)
  have key: "nodeKey (HNode ''OrgRoot'' [] None []) = (''OrgRoot'', [])" by (simp add: nodeKey_def)
  have once: "mergedOnce (HNode ''OrgRoot'' [] None [])" by simp
  from mergeBindingMaps_leaves[OF assms(1) key once] obtain t where
    t: "mergeBindingMaps parse markForDelete subnetPath bms (HNode ''OrgRoot'' [] None []) = Ok t"
      "mergedOnce t"
      "mset (leavesUnder [] t)
         = mset (leavesUnder [] (HNode ''OrgRoot'' [] None []))
           + mset (concat (map (leafEntries parse markForDelete subnetPath) bms))"
    by blast
  from mergeBindingMaps_leaves[OF np' key once] obtain t' where
    t': "mergeBindingMaps parse markForDelete subnetPath bms' (HNode ''OrgRoot'' [] None []) = Ok t'"
      "mergedOnce t'"
      "mset (leavesUnder [] t')
         = mset (leavesUnder [] (HNode ''OrgRoot'' [] None []))
           + mset (concat (map (leafEntries parse markForDelete subnetPath) bms'))"
    by blast
  have same: "mset (leavesUnder [] t) = mset (leavesUnder [] t')"
    using t(3) t'(3) mset_concat_map_perm[OF assms(2), of "leafEntries parse markForDelete subnetPath"]
    by simp
  have all: "mset (leavesUnder [] t)
      = mset (concat (map (leafEntries parse markForDelete subnetPath) bms))"
    using t(3) by (simp add: leafType_def)
  from t(1,2) t'(1,2) all same show ?thesis by blast
qed

text \<open>
  C1, as amended. For every batch on which the loop of the builder does not panic and for
  every insertion order of it: the merge succeeds, no two ancestor nodes that are siblings
  in the merged tree have the same (type, id), the leaves of the merged tree are those of
  the binding maps whose path parses, each below the ancestors that its path names, and
  the merged trees of two insertion orders hold the same leaves below the same ancestors. Two binding maps whose paths parse
  to the same organisation, project, VPC and subnet are merged below one chain of ancestor
  nodes, one node per ancestor, with exactly two leaves under the subnet node, and the
  request holds one reference per ancestor and the two leaf wrappers. The leaves stand in
  the order of insertion: the other insertion order gives the same chain with the two
  leaves exchanged.
\<close>

theorem merge_by_type_and_id:
  "(noPanic parse markForDelete subnetPath bms \<and> mset bms' = mset bms \<longrightarrow>
      (\<exists>t t'.
         mergeBindingMaps parse markForDelete subnetPath bms (HNode ''OrgRoot'' [] None []) = Ok t \<and>
         mergeBindingMaps parse markForDelete subnetPath bms' (HNode ''OrgRoot'' [] None []) = Ok t' \<and>
         mergedOnce t \<and> mergedOnce t' \<and>
         mset (leavesUnder [] t) = mset (concat (map (leafEntries parse markForDelete subnetPath) bms)) \<and>
         mset (leavesUnder [] t) = mset (leavesUnder [] t'))) \<and>
   (parentPathOf subnetPath a = Some pa \<and> parentPathOf subnetPath b = Some pb \<and>
    parse pa = Inr info \<and> parse pb = Inr info \<and> sbm_Id a = Some ia \<and> sbm_Id b = Some ib \<longrightarrow>
      mergeBindingMaps parse markForDelete subnetPath [a, b] (HNode ''OrgRoot'' [] None [])
        = Ok (HNode ''OrgRoot'' [] None
                [ancestorChain info
                   [leafNode ia (markedForDelete markForDelete a),
                    leafNode ib (markedForDelete markForDelete b)]]) \<and>
      mergeBindingMaps parse markForDelete subnetPath [b, a] (HNode ''OrgRoot'' [] None [])
        = Ok (HNode ''OrgRoot'' [] None
                [ancestorChain info
                   [leafNode ib (markedForDelete markForDelete b),
                    leafNode ia (markedForDelete markForDelete a)]]) \<and>
      ((\<forall>v. cv v = None) \<longrightarrow>
         buildOrgRootBySubnetConnectionBindingMaps cm parse cv [a, b] markForDelete subnetPath
           = Ok (Some \<lparr> or_Children =
                          [referenceChain info
                             [leafWrapper (markedForDelete markForDelete a),
                              leafWrapper (markedForDelete markForDelete b)]],
                        or_ResourceType = Some ''OrgRoot'' \<rparr>) \<and>
         buildOrgRootBySubnetConnectionBindingMaps cm parse cv [b, a] markForDelete subnetPath
           = Ok (Some \<lparr> or_Children =
                          [referenceChain info
                             [leafWrapper (markedForDelete markForDelete b),
                              leafWrapper (markedForDelete markForDelete a)]],
                        or_ResourceType = Some ''OrgRoot'' \<rparr>)))"
proof (intro conjI impI)
  assume "noPanic parse markForDelete subnetPath bms \<and> mset bms' = mset bms"
  then show "\<exists>t t'.
         mergeBindingMaps parse markForDelete subnetPath bms (HNode ''OrgRoot'' [] None []) = Ok t \<and>
         mergeBindingMaps parse markForDelete subnetPath bms' (HNode ''OrgRoot'' [] None []) = Ok t' \<and>
         mergedOnce t \<and> mergedOnce t' \<and>
         mset (leavesUnder [] t) = mset (concat (map (leafEntries parse markForDelete subnetPath) bms)) \<and>
         mset (leavesUnder [] t) = mset (leavesUnder [] t')"
    using merged_trees_of_permuted_batches[of parse markForDelete subnetPath bms bms'] by blast
next
  assume h: "parentPathOf subnetPath a = Some pa \<and> parentPathOf subnetPath b = Some pb \<and>
    parse pa = Inr info \<and> parse pb = Inr info \<and> sbm_Id a = Some ia \<and> sbm_Id b = Some ib"
  note two = two_leaves_merged[where parse = parse and pa = pa and pb = pb and info = info
      and subnetPath = subnetPath and a = a and b = b and ia = ia and ib = ib
      and markForDelete = markForDelete and cv = cv and cm = cm]
  from h two show "mergeBindingMaps parse markForDelete subnetPath [a, b] (HNode ''OrgRoot'' [] None [])
        = Ok (HNode ''OrgRoot'' [] None
                [ancestorChain info
                   [leafNode ia (markedForDelete markForDelete a),
                    leafNode ib (markedForDelete markForDelete b)]])"
    by blast
  from h two show "mergeBindingMaps parse markForDelete subnetPath [b, a] (HNode ''OrgRoot'' [] None [])
        = Ok (HNode ''OrgRoot'' [] None
                [ancestorChain info
                   [leafNode ib (markedForDelete markForDelete b),
                    leafNode ia (markedForDelete markForDelete a)]])"
    by blast
  assume c: "\<forall>v. cv v = None"
  from h two c show "buildOrgRootBySubnetConnectionBindingMaps cm parse cv [a, b] markForDelete subnetPath
           = Ok (Some \<lparr> or_Children =
                          [referenceChain info
                             [leafWrapper (markedForDelete markForDelete a),
                              leafWrapper (markedForDelete markForDelete b)]],
                        or_ResourceType = Some ''OrgRoot'' \<rparr>)"
    by blast
  from h two c show "buildOrgRootBySubnetConnectionBindingMaps cm parse cv [b, a] markForDelete subnetPath
           = Ok (Some \<lparr> or_Children =
                          [referenceChain info
                             [leafWrapper (markedForDelete markForDelete b),
                              leafWrapper (markedForDelete markForDelete a)]],
                        or_ResourceType = Some ''OrgRoot'' \<rparr>)"
    by blast
qed

text \<open>
  Two binding maps of the subnet \<open>s1\<close>: both insertion orders merge, and the request built
  for the first order.
\<close>

theorem merge_by_type_and_id_witness:
  "(\<exists>t t'.
      mergeBindingMaps exParse None [] [exSubnetBinding ''bm1'', exSubnetBinding ''bm2'']
        (HNode ''OrgRoot'' [] None []) = Ok t \<and>
      mergeBindingMaps exParse None [] [exSubnetBinding ''bm2'', exSubnetBinding ''bm1'']
        (HNode ''OrgRoot'' [] None []) = Ok t' \<and>
      mergedOnce t \<and> mergedOnce t' \<and> mset (leavesUnder [] t) = mset (leavesUnder [] t')) \<and>
   buildOrgRootBySubnetConnectionBindingMaps exCommon exParse (\<lambda>v. None)
      [exSubnetBinding ''bm1'', exSubnetBinding ''bm2''] None []
     = Ok (Some \<lparr> or_Children =
                    [childReference ''Org'' ''default''
                       [childReference ''Project'' ''p1''
                          [childReference ''Vpc'' ''v1''
                             [childReference ''Subnet'' ''s1''
                                [leafWrapper (exSubnetBinding ''bm1''),
                                 leafWrapper (exSubnetBinding ''bm2'')]]]]],
                  or_ResourceType = Some ''OrgRoot'' \<rparr>)"
proof -
  let ?info = "\<lparr> vpc_OrgID = ''default'', vpc_ProjectID = ''p1'', vpc_VPCID = ''v1'', vpc_ID = ''s1'' \<rparr>"
  let ?bms = "[exSubnetBinding ''bm1'', exSubnetBinding ''bm2'']"
  let ?bms' = "[exSubnetBinding ''bm2'', exSubnetBinding ''bm1'']"
  have p1: "parentPathOf [] (exSubnetBinding ''bm1'') = Some exSubnetPath"
    and p2: "parentPathOf [] (exSubnetBinding ''bm2'') = Some exSubnetPath"
    by (simp_all add: parentPathOf_def exSubnetBinding_def)
  have parse: "exParse exSubnetPath = Inr ?info" by (simp add: exParse_def)
  have i1: "sbm_Id (exSubnetBinding ''bm1'') = Some ''bm1''"
    and i2: "sbm_Id (exSubnetBinding ''bm2'') = Some ''bm2''"
    by (simp_all add: exSubnetBinding_def)
  have np: "noPanic exParse None [] ?bms"
    by (simp add: noPanic_def leafContribution_def p1 p2 parse i1 i2)
  have perm: "mset ?bms' = mset ?bms" by simp
  note inst = merge_by_type_and_id[where parse = exParse and markForDelete = None
      and subnetPath = "[]" and bms = ?bms and bms' = ?bms'
      and a = "exSubnetBinding ''bm1''" and b = "exSubnetBinding ''bm2''"
      and pa = exSubnetPath and pb = exSubnetPath and info = ?info
      and ia = "''bm1''" and ib = "''bm2''" and cv = "\<lambda>v. None" and cm = exCommon]
  from inst np perm have general: "\<exists>t t'.
      mergeBindingMaps exParse None [] ?bms (HNode ''OrgRoot'' [] None []) = Ok t \<and>
      mergeBindingMaps exParse None [] ?bms' (HNode ''OrgRoot'' [] None []) = Ok t' \<and>
      mergedOnce t \<and> mergedOnce t' \<and> mset (leavesUnder [] t) = mset (leavesUnder [] t')"
    by blast
  from inst p1 p2 parse i1 i2
  have "buildOrgRootBySubnetConnectionBindingMaps exCommon exParse (\<lambda>v. None) ?bms None []
      = Ok (Some \<lparr> or_Children =
                     [referenceChain ?info
                        [leafWrapper (markedForDelete None (exSubnetBinding ''bm1'')),
                         leafWrapper (markedForDelete None (exSubnetBinding ''bm2''))]],
                   or_ResourceType = Some ''OrgRoot'' \<rparr>)"
    by blast
  then have request: "buildOrgRootBySubnetConnectionBindingMaps exCommon exParse (\<lambda>v. None) ?bms None []
     = Ok (Some \<lparr> or_Children =
                    [childReference ''Org'' ''default''
                       [childReference ''Project'' ''p1''
                          [childReference ''Vpc'' ''v1''
                             [childReference ''Subnet'' ''s1''
                                [leafWrapper (exSubnetBinding ''bm1''),
                                 leafWrapper (exSubnetBinding ''bm2'')]]]]],
                  or_ResourceType = Some ''OrgRoot'' \<rparr>)"
    by (simp add: markedForDelete_def referenceChain_def)
  from general request show ?thesis by blast
qed

text \<open>
  The claim as stated fails: for these two binding maps the two insertion orders give
  different trees and different requests.
\<close>

theorem insertion_order_counterexample:
  "buildOrgRootBySubnetConnectionBindingMaps exCommon exParse (\<lambda>v. None)
      [exSubnetBinding ''bm1'', exSubnetBinding ''bm2''] None []
   \<noteq> buildOrgRootBySubnetConnectionBindingMaps exCommon exParse (\<lambda>v. None)
      [exSubnetBinding ''bm2'', exSubnetBinding ''bm1''] None [] \<and>
   mergeBindingMaps exParse None [] [exSubnetBinding ''bm1'', exSubnetBinding ''bm2'']
      (HNode ''OrgRoot'' [] None [])
   \<noteq> mergeBindingMaps exParse None [] [exSubnetBinding ''bm2'', exSubnetBinding ''bm1'']
      (HNode ''OrgRoot'' [] None [])"
proof -
  let ?info = "\<lparr> vpc_OrgID = ''default'', vpc_ProjectID = ''p1'', vpc_VPCID = ''v1'', vpc_ID = ''s1'' \<rparr>"
  have p1: "parentPathOf [] (exSubnetBinding ''bm1'') = Some exSubnetPath"
    and p2: "parentPathOf [] (exSubnetBinding ''bm2'') = Some exSubnetPath"
    by (simp_all add: parentPathOf_def exSubnetBinding_def)
  have parse: "exParse exSubnetPath = Inr ?info" by (simp add: exParse_def)
  have i1: "sbm_Id (exSubnetBinding ''bm1'') = Some ''bm1''"
    and i2: "sbm_Id (exSubnetBinding ''bm2'') = Some ''bm2''"
    by (simp_all add: exSubnetBinding_def)
  note m12 = mergeBindingMaps_two[where parse = exParse and pa = exSubnetPath
      and pb = exSubnetPath and markForDelete = None, OF p1 p2 parse parse i1 i2]
  note m21 = mergeBindingMaps_two[where parse = exParse and pa = exSubnetPath
      and pb = exSubnetPath and markForDelete = None, OF p2 p1 parse parse i2 i1]
  from m12 m21
  have trees: "mergeBindingMaps exParse None [] [exSubnetBinding ''bm1'', exSubnetBinding ''bm2'']
      (HNode ''OrgRoot'' [] None [])
   \<noteq> mergeBindingMaps exParse None [] [exSubnetBinding ''bm2'', exSubnetBinding ''bm1'']
      (HNode ''OrgRoot'' [] None [])"
    by (simp add: ancestorChain_def leafNode_def)
  have i1': "sbm_Id (markedForDelete None (exSubnetBinding ''bm1'')) = Some ''bm1''"
    and i2': "sbm_Id (markedForDelete None (exSubnetBinding ''bm2'')) = Some ''bm2''"
    by (simp_all add: exSubnetBinding_def markedForDelete_def)
  have "buildOrgRootBySubnetConnectionBindingMaps exCommon exParse (\<lambda>v. None)
      [exSubnetBinding ''bm1'', exSubnetBinding ''bm2''] None []
   \<noteq> buildOrgRootBySubnetConnectionBindingMaps exCommon exParse (\<lambda>v. None)
      [exSubnetBinding ''bm2'', exSubnetBinding ''bm1''] None []"
    unfolding buildOrgRootBySubnetConnectionBindingMaps_def Let_def m12 m21
    using buildTree_two[of "\<lambda>v. None" _ _ _ _ exCommon ?info, OF _ i1' i2']
      buildTree_two[of "\<lambda>v. None" _ _ _ _ exCommon ?info, OF _ i2' i1']
    by (simp add: referenceChain_def childReference_def leafWrapper_def markedForDelete_def
        exSubnetBinding_def)
  with trees show ?thesis by blast
qed

end
